theory Spec2Isabelle
  imports Complex_Main
begin

section \<open>Configuration (\<open>ParserConfig\<close>, \<open>DEFAULT_CONFIG\<close>)\<close>

text \<open>
  The frozen dataclass \<open>ParserConfig\<close>. The header dictionary is kept as an association
  list, the tuple of retryable statuses as a list, Python's unbounded \<open>int\<close> as \<open>int\<close>.
  The two delay bounds are only ever handed to \<open>random.uniform\<close>; they are carried as
  reals and never computed with.
\<close>

record ParserConfig =
  base_url :: string
  headers :: "(string \<times> string) list"
  delay_seconds :: "real \<times> real"
  max_retries :: int
  timeout_seconds :: int
  retry_statuses :: "int list"

definition DEFAULT_CONFIG :: ParserConfig where
  "DEFAULT_CONFIG = \<lparr>
     base_url = ''https://books.toscrape.com/'',
     headers = [
       (''User-Agent'', ''Mozilla/5.0 (Windows NT 10.0; Win64; x64) AppleWebKit/537.36 (KHTML, like Gecko) Chrome/120.0.0.0 Safari/537.36''),
       (''Accept'', ''text/html,application/xhtml+xml,application/xml;q=0.9,*/*;q=0.8''),
       (''Accept-Language'', ''en-US,en;q=0.9''),
       (''Connection'', ''keep-alive''),
       (''Referer'', ''https://www.google.com/'')],
     delay_seconds = (1.5, 3.5),
     max_retries = 5,
     timeout_seconds = 20,
     retry_statuses = [403, 408, 429, 500, 502, 503, 504] \<rparr>"

section \<open>The outside world: session, network, clock\<close>

text \<open>
  \<open>requests.Response\<close>, reduced to the two attributes the program reads:
  \<open>status_code\<close> and \<open>text\<close> (here \<open>response_text\<close>).
\<close>

record Response =
  status_code :: int
  response_text :: string

text \<open>
  One call of \<open>session.get\<close> either returns a response or raises a
  \<open>RequestException\<close> (the only exception \<open>fetch_with_retries\<close> catches; the
  argument is the exception's message).
\<close>

datatype get_result = Resp Response | RequestException string

text \<open>
  The effects of a run are recorded in a chronological trace: the creation of the
  session (\<open>requests.Session()\<close>), each \<open>session.get(url, headers=..., timeout=...)\<close>,
  and each \<open>sleep_human(min_max)\<close> (the drawn duration is not recorded, only the
  range). \<open>SessionClosed\<close> stands for a call of \<open>session.close()\<close> or for leaving a
  \<open>with\<close> block over the session; the program contains neither, so none of the
  functions below emits it. Console output (\<open>print\<close>) is not part of the trace.
\<close>

datatype event =
    SessionCreated
  | Get string "(string \<times> string) list" int
  | Sleep "real \<times> real"
  | SessionClosed

type_synonym trace = "event list"

text \<open>
  The network is any function from the ordinal of a request within the run (counted
  from 0) and its URL to the outcome of that request. Quantifying over all such
  functions covers every behaviour of the upstream server during one run.
\<close>

type_synonym network = "nat \<Rightarrow> string \<Rightarrow> get_result"

fun is_Get :: "event \<Rightarrow> bool" where
  "is_Get (Get url hs t) = True"
| "is_Get SessionCreated = False"
| "is_Get (Sleep d) = False"
| "is_Get SessionClosed = False"

definition requests_made :: "trace \<Rightarrow> nat" where
  "requests_made tr = length (filter is_Get tr)"

definition session_get ::
  "network \<Rightarrow> string \<Rightarrow> (string \<times> string) list \<Rightarrow> int \<Rightarrow> trace \<Rightarrow> get_result \<times> trace" where
  "session_get net url hs t tr = (net (requests_made tr) url, tr @ [Get url hs t])"

text \<open>
  \<open>sleep_human(min_max)\<close> sleeps for a duration drawn from the range. A duration is
  not negative: for a range with \<open>0 \<le> min \<le> max\<close> the drawn value is one, and
  \<open>time.sleep\<close> returns. For a range that reaches below zero \<open>time.sleep\<close> can
  raise \<open>ValueError\<close>; such ranges are outside this model, and a statement that
  ranges over every configuration says so (\<open>valid_config\<close> below).
\<close>

definition sleep_human :: "real \<times> real \<Rightarrow> trace \<Rightarrow> trace" where
  "sleep_human min_max tr = tr @ [Sleep min_max]"

section \<open>The retrying fetcher (\<open>fetch_with_retries\<close>)\<close>

text \<open>
  The body of \<open>for attempt in range(1, config.max_retries + 1)\<close>, by recursion on the
  attempts still to come. \<open>None\<close> is Python's \<open>None\<close>; the trace is threaded through.
\<close>

fun fetch_attempts ::
  "network \<Rightarrow> string \<Rightarrow> ParserConfig \<Rightarrow> int list \<Rightarrow> trace \<Rightarrow> Response option \<times> trace" where
  "fetch_attempts net url config [] tr = (None, tr)"
| "fetch_attempts net url config (attempt # rest) tr =
     (case session_get net url (headers config) (timeout_seconds config) tr of
        (Resp response, tr1) \<Rightarrow>
          if status_code response = 200 then (Some response, tr1)
          else if status_code response \<in> set (retry_statuses config)
          then fetch_attempts net url config rest (sleep_human (delay_seconds config) tr1)
          else (None, tr1)
      | (RequestException exc, tr1) \<Rightarrow>
          fetch_attempts net url config rest (sleep_human (delay_seconds config) tr1))"

definition fetch_with_retries ::
  "network \<Rightarrow> string \<Rightarrow> ParserConfig \<Rightarrow> trace \<Rightarrow> Response option \<times> trace" where
  "fetch_with_retries net url config tr =
     fetch_attempts net url config [1..max_retries config] tr"

text \<open>
  Vocabulary of the retry claims. A configuration is valid when its delay range is a
  range of durations (\<open>0 \<le> min \<le> max\<close>, the invariant of the specification's
  \<open>FetchConfig\<close>) and its retryable statuses are statuses of failures: 200, the
  status of success, which the code tests first, is not among them.
  \<open>DEFAULT_CONFIG\<close> is valid.

  \<open>retryable\<close> is the specification's wording: a response whose status is in the
  retryable set, or a network-level error. \<open>retried\<close> is the outcome on which the
  code reaches one of its two \<open>continue\<close> statements: a network-level error, or a
  response whose status is not 200 and is in the set. For a valid configuration the
  two are the same.
\<close>

definition valid_config :: "ParserConfig \<Rightarrow> bool" where
  "valid_config config =
     (0 \<le> fst (delay_seconds config) \<and>
      fst (delay_seconds config) \<le> snd (delay_seconds config) \<and>
      200 \<notin> set (retry_statuses config))"

definition retryable :: "ParserConfig \<Rightarrow> get_result \<Rightarrow> bool" where
  "retryable config outcome =
     (case outcome of
        Resp response \<Rightarrow> status_code response \<in> set (retry_statuses config)
      | RequestException exc \<Rightarrow> True)"

definition retried :: "ParserConfig \<Rightarrow> get_result \<Rightarrow> bool" where
  "retried config outcome =
     (case outcome of
        Resp response \<Rightarrow>
          status_code response \<noteq> 200 \<and> status_code response \<in> set (retry_statuses config)
      | RequestException exc \<Rightarrow> True)"

text \<open>The events of \<open>k\<close> attempts that were each retried: a request, then a delay.\<close>

definition retry_events :: "string \<Rightarrow> ParserConfig \<Rightarrow> nat \<Rightarrow> trace" where
  "retry_events url config k =
     concat (replicate k
       [Get url (headers config) (timeout_seconds config), Sleep (delay_seconds config)])"

section \<open>The parsed document (\<open>BeautifulSoup\<close>)\<close>

text \<open>
  Modelled from the spec: the parsed document and its queries. The source calls the
  \<open>bs4\<close> library (\<open>BeautifulSoup\<close>, \<open>select\<close>, \<open>select_one\<close>, \<open>card.h3.a\<close>,
  \<open>get\<close>, indexing, \<open>get_text\<close>), which is not part of the repository. Section 4.2
  of the specification says what these calls extract; the definitions of this section
  give the library's documented behaviour for exactly the calls the source makes.

  The tree that \<open>BeautifulSoup(html, "html.parser")\<close> builds: an element (\<open>Tag\<close>)
  has a name, the list of its CSS classes (the value of its \<open>class\<close> attribute, which
  the parser splits at whitespace; empty when the attribute is absent), its other
  attributes as a dictionary from names to strings, and its children. The parser
  gives every piece of character data a class. Ordinary text (and a CDATA section) is
  a \<open>NavigableString\<close>. The text inside a \<open>script\<close>, \<open>style\<close> or \<open>template\<close>
  element, a comment, a declaration and a processing instruction belong to the
  library's other string classes (\<open>Script\<close>, \<open>Stylesheet\<close>, \<open>TemplateString\<close>,
  \<open>Comment\<close>, ...): they are \<open>SpecialString\<close> here, and \<open>get_text\<close> on a \<open>p\<close>
  element passes over them. Characters are code points below 256.
\<close>

datatype node =
    Tag string "string list" "(string \<times> string) list" "node list"
  | NavigableString string
  | SpecialString string

text \<open>
  The tokenizer and tree builder of \<open>html.parser\<close> are library code: they enter as a
  parameter \<open>html_parser\<close> that yields the top-level nodes of the document. The
  \<open>BeautifulSoup\<close> object is the root above them, an element named \<open>[document]\<close>.
\<close>

type_synonym html_parser = "string \<Rightarrow> node list"

definition BeautifulSoup :: "html_parser \<Rightarrow> string \<Rightarrow> node" where
  "BeautifulSoup parser html = Tag ''[document]'' [] [] (parser html)"

text \<open>All nodes below a node, in document order (\<open>Tag.descendants\<close>).\<close>

fun descendants :: "node \<Rightarrow> node list" where
  "descendants (Tag nm cls ats kids) = concat (map (\<lambda>k. k # descendants k) kids)"
| "descendants (NavigableString s) = []"
| "descendants (SpecialString s) = []"

text \<open>Every (parent, child) pair below a node, in document order of the child.\<close>

fun child_pairs :: "node \<Rightarrow> (node \<times> node) list" where
  "child_pairs (Tag nm cls ats kids) =
     concat (map (\<lambda>k. (Tag nm cls ats kids, k) # child_pairs k) kids)"
| "child_pairs (NavigableString s) = []"
| "child_pairs (SpecialString s) = []"

text \<open>
  A compound CSS selector \<open>name.c1.c2...\<close> matches an element of that name that
  carries each of the classes.
\<close>

fun matches :: "string \<Rightarrow> string list \<Rightarrow> node \<Rightarrow> bool" where
  "matches tag_name cs (Tag nm cls ats kids) = (nm = tag_name \<and> list_all (\<lambda>c. c \<in> set cls) cs)"
| "matches tag_name cs (NavigableString s) = False"
| "matches tag_name cs (SpecialString s) = False"

text \<open>
  \<open>tag.select("name.c1...")\<close>, \<open>tag.select_one("name.c1...")\<close>, and
  \<open>tag.select_one("pname.pc1... > name.c1...")\<close> (the child combinator).
\<close>

definition select :: "string \<Rightarrow> string list \<Rightarrow> node \<Rightarrow> node list" where
  "select tag_name cs el = filter (matches tag_name cs) (descendants el)"

definition select_one :: "string \<Rightarrow> string list \<Rightarrow> node \<Rightarrow> node option" where
  "select_one tag_name cs el =
     (case select tag_name cs el of [] \<Rightarrow> None | t # ts \<Rightarrow> Some t)"

definition select_one_child ::
  "string \<Rightarrow> string list \<Rightarrow> string \<Rightarrow> string list \<Rightarrow> node \<Rightarrow> node option" where
  "select_one_child ptag pcs tag_name cs el =
     (case filter (\<lambda>(p, c). matches ptag pcs p \<and> matches tag_name cs c) (child_pairs el) of
        [] \<Rightarrow> None
      | (p, c) # ts \<Rightarrow> Some c)"

text \<open>\<open>tag.h3\<close>, \<open>tag.a\<close>: the first descendant element of that name, or \<open>None\<close>.\<close>

definition find_tag :: "string \<Rightarrow> node \<Rightarrow> node option" where
  "find_tag tag_name el = select_one tag_name [] el"

text \<open>
  \<open>tag.get(key, default)\<close> and \<open>tag[key]\<close> for a string-valued attribute, and
  \<open>tag.get("class", [])\<close>.
\<close>

datatype error = AttributeError | KeyError | ValueError

fun attr_get :: "node \<Rightarrow> string \<Rightarrow> string \<Rightarrow> string" where
  "attr_get (Tag nm cls ats kids) key dflt =
     (case map_of ats key of Some v \<Rightarrow> v | None \<Rightarrow> dflt)"
| "attr_get (NavigableString s) key dflt = dflt"
| "attr_get (SpecialString s) key dflt = dflt"

fun attr_index :: "node \<Rightarrow> string \<Rightarrow> error + string" where
  "attr_index (Tag nm cls ats kids) key =
     (case map_of ats key of Some v \<Rightarrow> Inr v | None \<Rightarrow> Inl KeyError)"
| "attr_index (NavigableString s) key = Inl KeyError"
| "attr_index (SpecialString s) key = Inl KeyError"

fun get_class :: "node \<Rightarrow> string list" where
  "get_class (Tag nm cls ats kids) = cls"
| "get_class (NavigableString s) = []"
| "get_class (SpecialString s) = []"

text \<open>
  \<open>str.strip()\<close>: removes leading and trailing whitespace, where whitespace is what
  \<open>str.isspace\<close> accepts among the code points below 256.
\<close>

definition isspace :: "char \<Rightarrow> bool" where
  "isspace c = (c \<in> set [CHR 0x09, CHR 0x0A, CHR 0x0B, CHR 0x0C, CHR 0x0D,
                          CHR 0x1C, CHR 0x1D, CHR 0x1E, CHR 0x1F, CHR 0x20,
                          CHR 0x85, CHR 0xA0])"

definition strip :: "string \<Rightarrow> string" where
  "strip s = rev (dropWhile isspace (rev (dropWhile isspace s)))"

fun join :: "string \<Rightarrow> string list \<Rightarrow> string" where
  "join sep [] = []"
| "join sep [s] = s"
| "join sep (s # t # ts) = s @ sep @ join sep (t # ts)"

text \<open>
  \<open>tag.get_text(separator, strip=True)\<close> on a \<open>p\<close> element: the ordinary text
  nodes below the element (not the contents of \<open>script\<close> or \<open>style\<close>, not
  comments), each stripped, the empty ones dropped, joined by the separator.
\<close>

fun node_string :: "node \<Rightarrow> string option" where
  "node_string (NavigableString s) = Some s"
| "node_string (SpecialString s) = None"
| "node_string (Tag nm cls ats kids) = None"

definition get_text :: "string \<Rightarrow> node \<Rightarrow> string" where
  "get_text separator t =
     join separator
       (filter (\<lambda>s. s \<noteq> []) (map strip (List.map_filter node_string (descendants t))))"

section \<open>\<open>urljoin\<close>\<close>

text \<open>
  Modelled from the spec: the resolution of a link against the page URL, which the
  source leaves to \<open>urllib.parse.urljoin\<close> of the standard library.
  \<open>urljoin(base, url)\<close> returns \<open>url\<close> when \<open>base\<close> is empty and \<open>base\<close> when
  \<open>url\<close> is empty, without looking at the other argument; otherwise it splits both
  and resolves the reference against the base as RFC 3986 prescribes, and raises
  \<open>ValueError\<close> when one of them does not split (an unclosed bracket in the host, as
  in \<open>//[\<close>). That resolution enters as the parameter \<open>resolve\<close>; \<open>Inl\<close> is the
  exception, which none of the callers catches.
\<close>

type_synonym resolver = "string \<Rightarrow> string \<Rightarrow> error + string"

definition urljoin :: "resolver \<Rightarrow> string \<Rightarrow> string \<Rightarrow> error + string" where
  "urljoin resolve base url =
     (if base = [] then Inr url else if url = [] then Inr base else resolve base url)"

section \<open>The page extractor (\<open>parse_books_from_catalog_page\<close>)\<close>

text \<open>
  The dictionary built for one card has five fixed keys; the driver later adds
  \<open>page_num\<close> to it.
\<close>

record row =
  title :: string
  price_raw :: string
  availability :: string
  rating :: string
  product_url :: string

record tagged_row = row +
  page_num :: int

text \<open>
  The body of \<open>for card in book_cards\<close> (the loop variable is \<open>book_card\<close> here).
  \<open>card.h3.a\<close> raises \<open>AttributeError\<close> when the card has no \<open>h3\<close> (then
  \<open>card.h3\<close> is \<open>None\<close>), and \<open>.get\<close> raises it when the
  \<open>h3\<close> has no \<open>a\<close>. \<open>urljoin\<close> is called after the title and the link have
  been read and before the price is looked up; its \<open>ValueError\<close> leaves the
  function.
\<close>

definition card_row :: "resolver \<Rightarrow> string \<Rightarrow> node \<Rightarrow> error + row" where
  "card_row resolve page_url book_card =
     (case find_tag ''h3'' book_card of
        None \<Rightarrow> Inl AttributeError
      | Some h3 \<Rightarrow>
         (case find_tag ''a'' h3 of
            None \<Rightarrow> Inl AttributeError
          | Some a \<Rightarrow>
             (let title = strip (attr_get a ''title'' []);
                  rel_link = strip (attr_get a ''href'' [])
              in case urljoin resolve page_url rel_link of
                   Inl e \<Rightarrow> Inl e
                 | Inr joined \<Rightarrow>
                    (let product_url = joined;
                         price_text = select_one ''p'' [''price_color''] book_card;
                         price = (case price_text of Some t \<Rightarrow> get_text [] t | None \<Rightarrow> []);
                         availability_tag =
                           select_one ''p'' [''instock'', ''availability''] book_card;
                         availability =
                           (case availability_tag of Some t \<Rightarrow> get_text '' '' t | None \<Rightarrow> []);
                         rating_tag = select_one ''p'' [''star-rating''] book_card;
                         rating =
                           (case rating_tag of
                              None \<Rightarrow> []
                            | Some t \<Rightarrow>
                               (case filter (\<lambda>c. c \<noteq> ''star-rating'') (get_class t) of
                                  [] \<Rightarrow> []
                                | c # cs \<Rightarrow> c))
                     in Inr \<lparr> title = title, price_raw = price, availability = availability,
                              rating = rating, product_url = product_url \<rparr>))))"

fun parse_cards :: "resolver \<Rightarrow> string \<Rightarrow> row list \<Rightarrow> node list \<Rightarrow> error + row list" where
  "parse_cards resolve page_url rows [] = Inr rows"
| "parse_cards resolve page_url rows (book_card # cards) =
     (case card_row resolve page_url book_card of
        Inl e \<Rightarrow> Inl e
      | Inr r \<Rightarrow> parse_cards resolve page_url (rows @ [r]) cards)"

definition parse_books_from_catalog_page ::
  "html_parser \<Rightarrow> resolver \<Rightarrow> string \<Rightarrow> string \<Rightarrow> error + (row list \<times> string option)" where
  "parse_books_from_catalog_page parser resolve html page_url =
     (let soup = BeautifulSoup parser html;
          book_cards = select ''article'' [''product_pod''] soup
      in case parse_cards resolve page_url [] book_cards of
           Inl e \<Rightarrow> Inl e
         | Inr rows \<Rightarrow>
            (case select_one_child ''li'' [''next''] ''a'' [] soup of
               None \<Rightarrow> Inr (rows, None)
             | Some next_link_tag \<Rightarrow>
                (case attr_index next_link_tag ''href'' of
                   Inl e \<Rightarrow> Inl e
                 | Inr href \<Rightarrow>
                    (case urljoin resolve page_url href of
                       Inl e \<Rightarrow> Inl e
                     | Inr next_url \<Rightarrow> Inr (rows, Some next_url)))))"

section \<open>The traversal driver (\<open>scrape_all_books\<close>)\<close>

definition set_page_num :: "int \<Rightarrow> row \<Rightarrow> tagged_row" where
  "set_page_num n r = row.extend r (tagged_row.fields n)"

text \<open>
  The \<open>while current_url:\<close> loop. The condition is Python's truth test: \<open>None\<close> and the
  empty string both end the loop. A \<open>break\<close> and the normal exit lead to the same
  \<open>return\<close> of the accumulated rows; an exception raised by the extractor leaves the
  function (\<open>Inl\<close>). The loop need not terminate (the next links may go on forever),
  so not returning is the value \<open>None\<close>. The local variable \<open>page_num\<close> is
  \<open>page_counter\<close> here; \<open>page_num\<close> names the key of the row. The session is
  created first; the first URL is joined next, and a \<open>ValueError\<close> of \<open>urljoin\<close>
  on a malformed base URL leaves \<open>scrape_all_books\<close> before the loop.
\<close>

partial_function (option) scrape_loop ::
  "html_parser \<Rightarrow> resolver \<Rightarrow> network \<Rightarrow> ParserConfig \<Rightarrow> string option \<Rightarrow>
   tagged_row list \<Rightarrow> int \<Rightarrow> trace \<Rightarrow> ((error + tagged_row list) \<times> trace) option" where
  "scrape_loop parser resolve net config current_url all_rows page_counter tr =
     (case current_url of
        None \<Rightarrow> Some (Inr all_rows, tr)
      | Some url \<Rightarrow>
         if url = [] then Some (Inr all_rows, tr)
         else
          (case fetch_with_retries net url config tr of
             (None, tr1) \<Rightarrow> Some (Inr all_rows, tr1)
           | (Some response, tr1) \<Rightarrow>
              (case parse_books_from_catalog_page parser resolve (response_text response) url of
                 Inl e \<Rightarrow> Some (Inl e, tr1)
               | Inr (rows, next_url) \<Rightarrow>
                  if rows = [] then Some (Inr (all_rows @ []), tr1)
                  else scrape_loop parser resolve net config next_url
                         (all_rows @ map (set_page_num (page_counter + 1)) rows) (page_counter + 1)
                         (sleep_human (delay_seconds config) tr1))))"

definition scrape_all_books ::
  "html_parser \<Rightarrow> resolver \<Rightarrow> network \<Rightarrow> ParserConfig \<Rightarrow>
   ((error + tagged_row list) \<times> trace) option" where
  "scrape_all_books parser resolve net config =
     (case urljoin resolve (base_url config) ''catalogue/page-1.html'' of
        Inl e \<Rightarrow> Some (Inl e, [SessionCreated])
      | Inr current_url \<Rightarrow>
         scrape_loop parser resolve net config (Some current_url) [] 0 [SessionCreated])"

section \<open>Cleaning (\<open>clean_and_validate\<close>)\<close>

text \<open>
  A \<open>DataFrame\<close> built from a list of dictionaries with the same keys is the list of
  its rows; \<open>df.empty\<close> holds exactly when that list is empty, and
  \<open>reset_index(drop=True)\<close> renumbers the rows, which a list does by itself.
\<close>

text \<open>
  Modelled from the spec: the deduplication by product URL. The source leaves it to
  \<open>df.drop_duplicates(subset=["product_url"])\<close> of the pandas library, which is not
  part of the repository. With its default \<open>keep="first"\<close> it keeps a row exactly when
  no earlier row has the same value in the column, in the original order.
  \<open>drop_dups\<close> walks the rows with the values seen so far.
\<close>

fun drop_dups :: "('a \<Rightarrow> 'k) \<Rightarrow> 'k list \<Rightarrow> 'a list \<Rightarrow> 'a list" where
  "drop_dups column seen [] = []"
| "drop_dups column seen (r # rs) =
     (if column r \<in> set seen then drop_dups column seen rs
      else r # drop_dups column (column r # seen) rs)"

definition drop_duplicates :: "('a \<Rightarrow> 'k) \<Rightarrow> 'a list \<Rightarrow> 'a list" where
  "drop_duplicates column df = drop_dups column [] df"

text \<open>
  The cleaned frame has one more column, \<open>price_gbp\<close>: the price text with every
  character but digits and the full stop removed, converted by
  \<open>pd.to_numeric(..., errors="coerce")\<close>. The conversion to a floating-point number is
  library code and enters as the parameter \<open>to_numeric\<close> (\<open>None\<close> is \<open>NaN\<close>).
  The quality ratios and the aggregation by rating are only printed.
\<close>

record 'f clean_row = tagged_row +
  price_gbp :: "'f option"

definition price_digits :: "string \<Rightarrow> string" where
  "price_digits s = filter (\<lambda>c. c \<in> set ''0123456789.'') s"

definition add_price_gbp :: "(string \<Rightarrow> 'f option) \<Rightarrow> tagged_row \<Rightarrow> 'f clean_row" where
  "add_price_gbp to_numeric r =
     tagged_row.extend r (clean_row.fields (to_numeric (price_digits (price_raw r))))"

definition clean_and_validate ::
  "(string \<Rightarrow> 'f option) \<Rightarrow> tagged_row list \<Rightarrow> error + 'f clean_row list" where
  "clean_and_validate to_numeric df =
     (if df = [] then Inl ValueError
      else Inr (drop_duplicates product_url (map (add_price_gbp to_numeric) df)))"

section \<open>Vocabulary of the claims\<close>

text \<open>
  The item cards of a document, in document order; the heading link of a card (what
  \<open>card.h3.a\<close> evaluates to); the presence of an attribute; the pagination anchor.
  A card is well-formed when it has a heading link that carries a \<open>title\<close> and an
  \<open>href\<close> attribute.
\<close>

definition item_cards :: "html_parser \<Rightarrow> string \<Rightarrow> node list" where
  "item_cards parser html = select ''article'' [''product_pod''] (BeautifulSoup parser html)"

definition heading_link :: "node \<Rightarrow> node option" where
  "heading_link book_card =
     (case find_tag ''h3'' book_card of None \<Rightarrow> None | Some h3 \<Rightarrow> find_tag ''a'' h3)"

fun has_attr :: "node \<Rightarrow> string \<Rightarrow> bool" where
  "has_attr (Tag nm cls ats kids) key = (map_of ats key \<noteq> None)"
| "has_attr (NavigableString s) key = False"
| "has_attr (SpecialString s) key = False"

definition has_heading_link :: "node \<Rightarrow> bool" where
  "has_heading_link book_card = (heading_link book_card \<noteq> None)"


definition heading_attr :: "node \<Rightarrow> string \<Rightarrow> string" where
  "heading_attr book_card key =
     (case heading_link book_card of None \<Rightarrow> [] | Some a \<Rightarrow> attr_get a key [])"

definition heading_has_attr :: "node \<Rightarrow> string \<Rightarrow> bool" where
  "heading_has_attr book_card key =
     (case heading_link book_card of None \<Rightarrow> False | Some a \<Rightarrow> has_attr a key)"

definition next_anchor :: "html_parser \<Rightarrow> string \<Rightarrow> node option" where
  "next_anchor parser html =
     select_one_child ''li'' [''next''] ''a'' [] (BeautifulSoup parser html)"

definition next_anchor_ok :: "html_parser \<Rightarrow> string \<Rightarrow> bool" where
  "next_anchor_ok parser html =
     (case next_anchor parser html of None \<Rightarrow> True | Some a \<Rightarrow> has_attr a ''href'')"

text \<open>
  The links of a page resolve against the page URL: \<open>urljoin\<close> raises no error on
  the link of any card (its \<open>href\<close>, trimmed; the empty string when the card has
  none), nor on the \<open>href\<close> of the next anchor.
\<close>

definition resolves :: "resolver \<Rightarrow> string \<Rightarrow> string \<Rightarrow> bool" where
  "resolves resolve base url =
     (case urljoin resolve base url of Inl e \<Rightarrow> False | Inr u \<Rightarrow> True)"

definition links_resolve :: "resolver \<Rightarrow> string \<Rightarrow> html_parser \<Rightarrow> string \<Rightarrow> bool" where
  "links_resolve resolve page_url parser html =
     (list_all (\<lambda>c. resolves resolve page_url (strip (heading_attr c ''href'')))
        (item_cards parser html) \<and>
      (case next_anchor parser html of
         None \<Rightarrow> True
       | Some a \<Rightarrow> resolves resolve page_url (attr_get a ''href'' [])))"


text \<open>
  How a record degrades when sources of its fields are missing from the card: a
  missing price element, availability element, rating marker or \<open>title\<close> attribute
  gives the empty string in that field. Nothing is said here of the product URL of
  a card without \<open>href\<close>.
\<close>

definition degraded_record :: "node \<Rightarrow> row \<Rightarrow> bool" where
  "degraded_record book_card r =
     ((select_one ''p'' [''price_color''] book_card = None \<longrightarrow> price_raw r = []) \<and>
      (select_one ''p'' [''instock'', ''availability''] book_card = None \<longrightarrow> availability r = []) \<and>
      (select_one ''p'' [''star-rating''] book_card = None \<longrightarrow> rating r = []) \<and>
      (\<not> heading_has_attr book_card ''title'' \<longrightarrow> title r = []))"

text \<open>
  A run that completes the pages whose extracted records are \<open>pages\<close>, in this order,
  starting at \<open>current_url\<close> with trace \<open>tr\<close>: each page has a non-empty URL, its fetch
  succeeds, and its body parses to exactly the given, non-empty list of records. The
  result is the next link of the last of these pages and the trace after its
  politeness delay.
\<close>

fun completed_pages ::
  "html_parser \<Rightarrow> resolver \<Rightarrow> network \<Rightarrow> ParserConfig \<Rightarrow> string option \<Rightarrow> trace \<Rightarrow>
   row list list \<Rightarrow> (string option \<times> trace) option" where
  "completed_pages parser resolve net config current_url tr [] = Some (current_url, tr)"
| "completed_pages parser resolve net config current_url tr (rows # pages) =
     (case current_url of
        None \<Rightarrow> None
      | Some url \<Rightarrow>
         if url = [] then None
         else
          (case fetch_with_retries net url config tr of
             (None, tr1) \<Rightarrow> None
           | (Some response, tr1) \<Rightarrow>
              (case parse_books_from_catalog_page parser resolve (response_text response) url of
                 Inl e \<Rightarrow> None
               | Inr (rows', next_url) \<Rightarrow>
                  if rows' = rows \<and> rows \<noteq> []
                  then completed_pages parser resolve net config next_url
                         (sleep_human (delay_seconds config) tr1) pages
                  else None)))"

text \<open>
  The records of the pages, each tagged with the 1-based ordinal of its page, in
  page-then-card order; \<open>tag_pages n\<close> numbers the pages from \<open>n + 1\<close>.
\<close>

definition tagged_pages :: "row list list \<Rightarrow> tagged_row list" where
  "tagged_pages pages =
     concat (map (\<lambda>(i, rows). map (set_page_num (int i)) rows) (enumerate 1 pages))"

fun tag_pages :: "int \<Rightarrow> row list list \<Rightarrow> tagged_row list" where
  "tag_pages n [] = []"
| "tag_pages n (rows # pages) = map (set_page_num (n + 1)) rows @ tag_pages (n + 1) pages"

text \<open>
  The page at \<open>url\<close>, visited with trace \<open>tr\<close>, ends the traversal without
  contributing a record: its fetch fails, or its body parses to zero records.
\<close>

definition page_stops ::
  "html_parser \<Rightarrow> resolver \<Rightarrow> network \<Rightarrow> ParserConfig \<Rightarrow> string \<Rightarrow> trace \<Rightarrow> bool" where
  "page_stops parser resolve net config url tr =
     (case fst (fetch_with_retries net url config tr) of
        None \<Rightarrow> True
      | Some response \<Rightarrow>
          (case parse_books_from_catalog_page parser resolve (response_text response) url of
             Inl e \<Rightarrow> False
           | Inr (rows, next_url) \<Rightarrow> rows = []))"

text \<open>
  The session of a run is open: it has been created and not closed.
\<close>

definition session_open :: "trace \<Rightarrow> bool" where
  "session_open tr = (SessionCreated \<in> set tr \<and> SessionClosed \<notin> set tr)"

section \<open>Concrete inputs\<close>

text \<open>
  Small configurations and networks on which the theorems below are instantiated.
  \<open>net_flaky\<close> times out once, answers 503 three times and then serves the page;
  \<open>net_down\<close> always answers 503; \<open>net_gone\<close> answers 503 once and then 404;
  \<open>net_ok\<close> always serves an empty page with status 200.
\<close>

definition net_flaky :: network where
  "net_flaky n url =
     (if n = 0 then RequestException ''timed out''
      else if n < 4 then Resp \<lparr> status_code = 503, response_text = [] \<rparr>
      else Resp \<lparr> status_code = 200, response_text = ''<html></html>'' \<rparr>)"

definition net_down :: network where
  "net_down n url = Resp \<lparr> status_code = 503, response_text = [] \<rparr>"

definition net_gone :: network where
  "net_gone n url =
     (if n = 0 then Resp \<lparr> status_code = 503, response_text = [] \<rparr>
      else Resp \<lparr> status_code = 404, response_text = [] \<rparr>)"

definition net_ok :: network where
  "net_ok n url = Resp \<lparr> status_code = 200, response_text = [] \<rparr>"

text \<open>
  Cards and pages. \<open>card_full\<close> follows the template of the catalogue;
  \<open>card_bare\<close> has a heading link with both attributes and nothing else;
  \<open>card_anonymous\<close> has a heading link without attributes; \<open>card_blank\<close> has a title
  of two spaces; \<open>card_headless\<close> has no \<open>h3\<close>; \<open>card_badlink\<close> is well-formed
  and its \<open>href\<close> is \<open>//[\<close>, a reference with an unclosed bracket in its host.
\<close>

definition card_full :: node where
  "card_full =
     Tag ''article'' [''product_pod''] []
       [Tag ''p'' [''star-rating'', ''Three''] [] [],
        Tag ''h3'' [] []
          [Tag ''a'' [] [(''href'', ''a/index.html''), (''title'', ''A Light'')]
             [NavigableString ''A Light ...'']],
        Tag ''div'' [''product_price''] []
          [Tag ''p'' [''price_color''] [] [NavigableString (CHR 0xA3 # ''51.77'')],
           Tag ''p'' [''instock'', ''availability''] []
             [Tag ''i'' [''icon-ok''] [] [], NavigableString ''  In stock  '']]]"

definition card_bare :: node where
  "card_bare =
     Tag ''article'' [''product_pod''] []
       [Tag ''h3'' [] []
          [Tag ''a'' [] [(''href'', '' b/index.html''), (''title'', ''Bare '')] []]]"

definition card_anonymous :: node where
  "card_anonymous =
     Tag ''article'' [''product_pod''] [] [Tag ''h3'' [] [] [Tag ''a'' [] [] []]]"

definition card_blank :: node where
  "card_blank =
     Tag ''article'' [''product_pod''] []
       [Tag ''h3'' [] [] [Tag ''a'' [] [(''href'', ''c.html''), (''title'', ''  '')] []]]"

definition card_headless :: node where
  "card_headless =
     Tag ''article'' [''product_pod''] []
       [Tag ''p'' [''price_color''] [] [NavigableString ''1.00'']]"

definition card_badlink :: node where
  "card_badlink =
     Tag ''article'' [''product_pod''] []
       [Tag ''h3'' [] [] [Tag ''a'' [] [(''href'', ''//[''), (''title'', ''Bad link'')] []]]"

definition pager :: "(string \<times> string) list \<Rightarrow> node" where
  "pager ats =
     Tag ''ul'' [''pager''] []
       [Tag ''li'' [''next''] [] [Tag ''a'' [] ats [NavigableString ''next'']]]"

text \<open>
  The documents are named by short strings; \<open>example_parser\<close> gives the tree of
  each: \<open>p1\<close> holds two cards and links to \<open>page-2.html\<close>, \<open>p2\<close> holds one card
  and links to \<open>page-3.html\<close>, \<open>p3\<close> holds one card and no link, \<open>blank\<close> holds the
  card with the blank title, \<open>nolink\<close> holds the bare card and a next anchor
  without \<open>href\<close>, \<open>degraded\<close> holds the card without attributes followed by the
  full one, \<open>headless\<close> holds the card without \<open>h3\<close>, \<open>badlink\<close> holds the
  card with the malformed link, and every other document has no element at all.
\<close>

definition example_parser :: html_parser where
  "example_parser html =
     (if html = ''p1'' then
        [Tag ''body'' [] [] [card_full, card_bare, pager [(''href'', ''page-2.html'')]]]
      else if html = ''p2'' then
        [Tag ''body'' [] [] [card_bare, pager [(''href'', ''page-3.html'')]]]
      else if html = ''p3'' then [Tag ''body'' [] [] [card_full]]
      else if html = ''blank'' then [Tag ''body'' [] [] [card_blank]]
      else if html = ''nolink'' then [Tag ''body'' [] [] [card_bare, pager []]]
      else if html = ''degraded'' then [Tag ''body'' [] [] [card_anonymous, card_full]]
      else if html = ''headless'' then [Tag ''body'' [] [] [card_headless]]
      else if html = ''badlink'' then [Tag ''body'' [] [] [card_badlink]]
      else [])"

text \<open>
  A resolver that agrees with \<open>urljoin\<close> on the references used here: for a simple
  relative reference, the base up to its last slash followed by the reference; for
  the reference \<open>//[\<close>, the \<open>ValueError\<close> that \<open>urljoin\<close> raises on it (Invalid IPv6
  URL).
\<close>

definition example_resolve :: resolver where
  "example_resolve base ref =
     (if ref = ''//['' then Inl ValueError
      else Inr (rev (dropWhile (\<lambda>c. c \<noteq> CHR ''/'') (rev base)) @ ref))"

text \<open>
  A site of three pages, and two broken variants of it: on \<open>net_site_404\<close> the second
  page is gone, on \<open>net_site_empty\<close> the second page has no cards. \<open>site_config\<close> allows
  two attempts per page.
\<close>

definition site_config :: ParserConfig where
  "site_config = DEFAULT_CONFIG \<lparr> base_url := ''http://b/'', max_retries := 2 \<rparr>"

definition net_site :: network where
  "net_site n url =
     (if url = ''http://b/catalogue/page-1.html'' then Resp \<lparr> status_code = 200, response_text = ''p1'' \<rparr>
      else if url = ''http://b/catalogue/page-2.html'' then Resp \<lparr> status_code = 200, response_text = ''p2'' \<rparr>
      else if url = ''http://b/catalogue/page-3.html'' then Resp \<lparr> status_code = 200, response_text = ''p3'' \<rparr>
      else Resp \<lparr> status_code = 404, response_text = [] \<rparr>)"

definition net_site_404 :: network where
  "net_site_404 n url =
     (if url = ''http://b/catalogue/page-1.html'' then Resp \<lparr> status_code = 200, response_text = ''p1'' \<rparr>
      else Resp \<lparr> status_code = 404, response_text = [] \<rparr>)"

definition net_site_empty :: network where
  "net_site_empty n url =
     (if url = ''http://b/catalogue/page-1.html'' then Resp \<lparr> status_code = 200, response_text = ''p1'' \<rparr>
      else Resp \<lparr> status_code = 200, response_text = ''none'' \<rparr>)"

text \<open>The records of the two cards, and the events of a run on the site.\<close>

definition row_full :: row where
  "row_full = \<lparr>title = ''A Light'', price_raw = CHR 0xA3 # ''51.77'',
                availability = ''In stock'', rating = ''Three'',
                product_url = ''http://b/catalogue/a/index.html''\<rparr>"

definition row_bare :: row where
  "row_bare = \<lparr>title = ''Bare'', price_raw = [], availability = [], rating = [],
                product_url = ''http://b/catalogue/b/index.html''\<rparr>"

definition site_get :: "string \<Rightarrow> event" where
  "site_get url = Get url (headers site_config) (timeout_seconds site_config)"

definition site_sleep :: event where
  "site_sleep = Sleep (delay_seconds site_config)"

definition page1_url :: string where
  "page1_url = ''http://b/catalogue/page-1.html''"

definition page2_url :: string where
  "page2_url = ''http://b/catalogue/page-2.html''"

definition page3_url :: string where
  "page3_url = ''http://b/catalogue/page-3.html''"

text \<open>A conversion that knows no number, for the cleaning stage.\<close>

definition no_number :: "string \<Rightarrow> real option" where
  "no_number s = None"

section \<open>Properties of the retrying fetcher\<close>

lemma requests_made_snoc_Get [simp]:
  "requests_made (tr @ [Get url hs t]) = Suc (requests_made tr)"
  by (simp add: requests_made_def)

lemma requests_made_snoc_Sleep [simp]:
  "requests_made (tr @ [Sleep d]) = requests_made tr"
  by (simp add: requests_made_def)

lemma retry_events_Suc:
  "retry_events url config (Suc k) =
     [Get url (headers config) (timeout_seconds config), Sleep (delay_seconds config)]
       @ retry_events url config k"
  by (simp add: retry_events_def)

lemma shifted_outcomes:
  assumes "\<forall>i < Suc n. P (m + i)"
  shows "P m" and "\<forall>i < n. P (Suc m + i)"
proof -
  from assms have "P (m + 0)" by blast
  then show "P m" by simp
  show "\<forall>i < n. P (Suc m + i)"
  proof (intro allI impI)
    fix i assume "i < n"
    then have "Suc i < Suc n" by simp
    with assms have "P (m + Suc i)" by blast
    then show "P (Suc m + i)" by simp
  qed
qed

text \<open>
  Attempts that are each retried leave the loop where it was, with one request and
  one delay per attempt added to the trace.
\<close>

lemma fetch_attempts_retried_prefix:
  "\<forall>i < length xs. retried config (net (requests_made tr + i) url) \<Longrightarrow>
   fetch_attempts net url config (xs @ ys) tr =
   fetch_attempts net url config ys (tr @ retry_events url config (length xs))"
proof (induction xs arbitrary: tr)
  case Nil
  then show ?case by (simp add: retry_events_def)
next
  case (Cons x xs)
  let ?tr2 = "tr @ [Get url (headers config) (timeout_seconds config), Sleep (delay_seconds config)]"
  from Cons.prems have all: "\<forall>i < Suc (length xs). retried config (net (requests_made tr + i) url)"
    by simp
  have first: "retried config (net (requests_made tr) url)"
    by (rule shifted_outcomes(1) [OF all])
  have rm: "requests_made ?tr2 = Suc (requests_made tr)"
    by (simp add: requests_made_def)
  have rest: "\<forall>i < length xs. retried config (net (requests_made ?tr2 + i) url)"
    unfolding rm by (rule shifted_outcomes(2) [OF all])
  have step: "fetch_attempts net url config ((x # xs) @ ys) tr =
              fetch_attempts net url config (xs @ ys) ?tr2"
    using first
    by (auto simp: retried_def session_get_def sleep_human_def split: get_result.splits)
  show ?case
    unfolding step Cons.IH [OF rest]
    by (simp add: retry_events_Suc)
qed

text \<open>
  If the attempts before the last of a budget end in retryable outcomes and the last
  one answers 200, the loop returns a response with status 200 within the budget.
\<close>

lemma fetch_attempts_success_within:
  "\<forall>i < length xs. retryable config (net (requests_made tr + i) url) \<Longrightarrow>
   net (requests_made tr + length xs) url = Resp response \<Longrightarrow>
   status_code response = 200 \<Longrightarrow>
   \<exists>r tr'. fetch_attempts net url config (xs @ a # ys) tr = (Some r, tr') \<and>
      status_code r = 200 \<and>
      requests_made tr < requests_made tr' \<and>
      requests_made tr' \<le> requests_made tr + length xs + 1"
proof (induction xs arbitrary: tr)
  case Nil
  then show ?case
    by (simp add: session_get_def)
next
  case (Cons x xs)
  let ?g = "Get url (headers config) (timeout_seconds config)"
  let ?tr2 = "tr @ [?g, Sleep (delay_seconds config)]"
  have rm: "requests_made ?tr2 = Suc (requests_made tr)"
    by (simp add: requests_made_def)
  from Cons.prems(1)
  have all: "\<forall>i < Suc (length xs). retryable config (net (requests_made tr + i) url)"
    by simp
  have first: "retryable config (net (requests_made tr) url)"
    by (rule shifted_outcomes(1) [OF all])
  have rest: "\<forall>i < length xs. retryable config (net (requests_made ?tr2 + i) url)"
    unfolding rm by (rule shifted_outcomes(2) [OF all])
  have last: "net (requests_made ?tr2 + length xs) url = Resp response"
    using Cons.prems(2) by (simp add: rm)
  from Cons.IH [OF rest last Cons.prems(3)]
  obtain r tr' where ih: "fetch_attempts net url config (xs @ a # ys) ?tr2 = (Some r, tr')"
    "status_code r = 200" "requests_made ?tr2 < requests_made tr'"
    "requests_made tr' \<le> requests_made ?tr2 + length xs + 1"
    by blast
  show ?case
  proof (cases "net (requests_made tr) url")
    case (RequestException exc)
    then have "fetch_attempts net url config ((x # xs) @ a # ys) tr = (Some r, tr')"
      using ih(1) by (simp add: session_get_def sleep_human_def)
    with ih show ?thesis by (simp add: rm)
  next
    case (Resp r0)
    show ?thesis
    proof (cases "status_code r0 = 200")
      case True
      with Resp have "fetch_attempts net url config ((x # xs) @ a # ys) tr = (Some r0, tr @ [?g])"
        by (simp add: session_get_def)
      with True show ?thesis by simp
    next
      case False
      with Resp first have "fetch_attempts net url config ((x # xs) @ a # ys) tr = (Some r, tr')"
        using ih(1) by (simp add: session_get_def sleep_human_def retryable_def)
      with ih show ?thesis by (simp add: rm)
    qed
  qed
qed

lemma attempts_split:
  assumes "k < nat R"
  shows "\<exists>xs a ys. [1..R] = xs @ a # ys \<and> length xs = k"
proof -
  have len: "k < length [1..R]" using assms by simp
  have "[1..R] = take k [1..R] @ ([1..R] ! k) # drop (Suc k) [1..R]"
    using len by (rule id_take_nth_drop)
  moreover have "length (take k [1..R]) = k" using len by simp
  ultimately show ?thesis by blast
qed

lemma retryable_valid:
  "valid_config config \<Longrightarrow> retryable config outcome = retried config outcome"
  by (cases outcome) (auto simp: valid_config_def retryable_def retried_def)

lemma valid_DEFAULT_CONFIG: "valid_config DEFAULT_CONFIG"
  by (simp add: valid_config_def DEFAULT_CONFIG_def)

text \<open>
  C1. For every valid configuration with a budget of \<open>R = max_retries \<ge> 1\<close> attempts
  and every URL: if the first \<open>R - 1\<close> attempts each end in a retryable outcome (a
  response whose status is in the retryable set, or a network-level error) and
  attempt \<open>R\<close> returns status 200, the fetcher returns a response with status 200 and
  has issued no more than \<open>R\<close> requests; if all \<open>R\<close> attempts end in retryable
  outcomes, it returns \<open>None\<close>, after exactly \<open>R\<close> requests, each followed by a delay.
\<close>

theorem fetch_with_retries_budget:
  assumes "valid_config config"
    and "1 \<le> max_retries config"
  shows "((\<forall>i < nat (max_retries config) - 1.
             retryable config (net (requests_made tr + i) url)) \<and>
          (\<exists>response. net (requests_made tr + (nat (max_retries config) - 1)) url = Resp response \<and>
             status_code response = 200)
          \<longrightarrow> (\<exists>response tr'. fetch_with_retries net url config tr = (Some response, tr') \<and>
                 status_code response = 200 \<and>
                 requests_made tr' \<le> requests_made tr + nat (max_retries config)))
       \<and> ((\<forall>i < nat (max_retries config). retryable config (net (requests_made tr + i) url))
          \<longrightarrow> fetch_with_retries net url config tr =
                (None, tr @ retry_events url config (nat (max_retries config))))"
proof (intro conjI impI)
  let ?R = "nat (max_retries config)"
  assume h: "(\<forall>i < ?R - 1. retryable config (net (requests_made tr + i) url)) \<and>
     (\<exists>response. net (requests_made tr + (?R - 1)) url = Resp response \<and> status_code response = 200)"
  then obtain response where last: "net (requests_made tr + (?R - 1)) url = Resp response"
    and ok: "status_code response = 200" by blast
  from assms(2) have "?R - 1 < ?R" by simp
  from attempts_split [OF this]
  obtain xs a ys where split: "[1..max_retries config] = xs @ a # ys" and len: "length xs = ?R - 1"
    by blast
  from h len have pre: "\<forall>i < length xs. retryable config (net (requests_made tr + i) url)"
    by simp
  from last len have last': "net (requests_made tr + length xs) url = Resp response"
    by simp
  from fetch_attempts_success_within
    [where xs = xs and config = config and net = net and tr = tr and url = url
       and response = response and a = a and ys = ys, OF pre last' ok]
  obtain r tr' where "fetch_attempts net url config (xs @ a # ys) tr = (Some r, tr')"
    "status_code r = 200" "requests_made tr' \<le> requests_made tr + length xs + 1"
    by blast
  with split len assms(2)
  show "\<exists>response tr'. fetch_with_retries net url config tr = (Some response, tr') \<and>
          status_code response = 200 \<and> requests_made tr' \<le> requests_made tr + ?R"
    by (auto simp: fetch_with_retries_def)
next
  let ?R = "nat (max_retries config)"
  assume h: "\<forall>i < ?R. retryable config (net (requests_made tr + i) url)"
  then have "\<forall>i < length [1..max_retries config].
      retried config (net (requests_made tr + i) url)"
    by (simp add: retryable_valid [OF assms(1)])
  from fetch_attempts_retried_prefix
    [where xs = "[1..max_retries config]" and config = config and net = net and tr = tr
       and url = url and ys = "[]", OF this]
  show "fetch_with_retries net url config tr = (None, tr @ retry_events url config ?R)"
    by (simp add: fetch_with_retries_def)
qed

theorem fetch_with_retries_budget_witness:
  "valid_config DEFAULT_CONFIG \<and> 1 \<le> max_retries DEFAULT_CONFIG \<and>
   retryable DEFAULT_CONFIG (net_flaky 0 ''u'') \<and> retryable DEFAULT_CONFIG (net_flaky 1 ''u'') \<and>
   retryable DEFAULT_CONFIG (net_flaky 2 ''u'') \<and> retryable DEFAULT_CONFIG (net_flaky 3 ''u'') \<and>
   net_flaky 4 ''u'' = Resp \<lparr> status_code = 200, response_text = ''<html></html>'' \<rparr> \<and>
   (\<exists>response tr'. fetch_with_retries net_flaky ''u'' DEFAULT_CONFIG [] = (Some response, tr') \<and>
      status_code response = 200 \<and> requests_made tr' \<le> 5) \<and>
   retryable DEFAULT_CONFIG (net_down 0 ''u'') \<and> retryable DEFAULT_CONFIG (net_down 1 ''u'') \<and>
   retryable DEFAULT_CONFIG (net_down 2 ''u'') \<and> retryable DEFAULT_CONFIG (net_down 3 ''u'') \<and>
   retryable DEFAULT_CONFIG (net_down 4 ''u'') \<and>
   fetch_with_retries net_down ''u'' DEFAULT_CONFIG [] =
     (None, retry_events ''u'' DEFAULT_CONFIG 5)"
proof -
  have R: "nat (max_retries DEFAULT_CONFIG) = 5" "1 \<le> max_retries DEFAULT_CONFIG"
    by (simp_all add: DEFAULT_CONFIG_def)
  have flaky: "\<forall>i < 4. retryable DEFAULT_CONFIG (net_flaky i ''u'')"
    by (simp add: retryable_def net_flaky_def DEFAULT_CONFIG_def)
  have down: "\<forall>i. retryable DEFAULT_CONFIG (net_down i ''u'')"
    by (simp add: retryable_def net_down_def DEFAULT_CONFIG_def)
  have last: "net_flaky 4 ''u'' = Resp \<lparr> status_code = 200, response_text = ''<html></html>'' \<rparr>"
    by (simp add: net_flaky_def)
  have rm: "requests_made [] = 0" by (simp add: requests_made_def)
  from fetch_with_retries_budget [OF valid_DEFAULT_CONFIG R(2), of net_flaky "[]" "''u''"] flaky last
  have a: "\<exists>response tr'. fetch_with_retries net_flaky ''u'' DEFAULT_CONFIG [] = (Some response, tr') \<and>
      status_code response = 200 \<and> requests_made tr' \<le> 5"
    by (simp add: R rm)
  from fetch_with_retries_budget [OF valid_DEFAULT_CONFIG R(2), of net_down "[]" "''u''"] down
  have b: "fetch_with_retries net_down ''u'' DEFAULT_CONFIG [] =
     (None, retry_events ''u'' DEFAULT_CONFIG 5)"
    by (simp add: R rm)
  from a b flaky down last R valid_DEFAULT_CONFIG show ?thesis by simp
qed

text \<open>
  C2. Whenever an attempt (the \<open>k+1\<close>-th of the budget, after \<open>k\<close> attempts that were
  retried) returns a response whose status is neither 200 nor in the retryable set,
  the fetcher returns \<open>None\<close> at once: the trace ends with that one request, with no
  delay and no request after it.
\<close>

theorem fetch_with_retries_fatal_status:
  assumes "k < nat (max_retries config)"
    and "\<forall>i < k. retried config (net (requests_made tr + i) url)"
    and "net (requests_made tr + k) url = Resp response"
    and "status_code response \<noteq> 200"
    and "status_code response \<notin> set (retry_statuses config)"
  shows "fetch_with_retries net url config tr =
           (None, tr @ retry_events url config k @
                    [Get url (headers config) (timeout_seconds config)])"
proof -
  from attempts_split [OF assms(1)]
  obtain xs a ys where split: "[1..max_retries config] = xs @ a # ys" and len: "length xs = k"
    by blast
  from assms(2) len
  have pre: "\<forall>i < length xs. retried config (net (requests_made tr + i) url)" by simp
  have rm: "requests_made (tr @ retry_events url config k) = requests_made tr + k"
    by (induction k) (simp_all add: retry_events_def requests_made_def)
  have "fetch_attempts net url config (xs @ a # ys) tr =
        fetch_attempts net url config (a # ys) (tr @ retry_events url config k)"
    using fetch_attempts_retried_prefix
      [where xs = xs and config = config and net = net and tr = tr and url = url
         and ys = "a # ys", OF pre] len by simp
  also have "\<dots> = (None, (tr @ retry_events url config k) @
                      [Get url (headers config) (timeout_seconds config)])"
    using assms(3-5) by (simp add: session_get_def rm)
  finally show ?thesis
    by (simp add: fetch_with_retries_def split)
qed

theorem fetch_with_retries_fatal_status_witness:
  "1 < nat (max_retries DEFAULT_CONFIG) \<and>
   retried DEFAULT_CONFIG (net_gone 0 ''u'') \<and>
   net_gone 1 ''u'' = Resp \<lparr> status_code = 404, response_text = [] \<rparr> \<and>
   (404 :: int) \<noteq> 200 \<and> (404 :: int) \<notin> set (retry_statuses DEFAULT_CONFIG) \<and>
   fetch_with_retries net_gone ''u'' DEFAULT_CONFIG [] =
     (None, [Get ''u'' (headers DEFAULT_CONFIG) 20, Sleep (delay_seconds DEFAULT_CONFIG),
             Get ''u'' (headers DEFAULT_CONFIG) 20])"
proof -
  have k: "1 < nat (max_retries DEFAULT_CONFIG)" by (simp add: DEFAULT_CONFIG_def)
  have pre: "\<forall>i < 1. retried DEFAULT_CONFIG (net_gone (requests_made [] + i) ''u'')"
    by (simp add: retried_def net_gone_def requests_made_def DEFAULT_CONFIG_def)
  have at: "net_gone (requests_made [] + 1) ''u'' =
              Resp \<lparr> status_code = 404, response_text = [] \<rparr>"
    by (simp add: net_gone_def requests_made_def)
  have s1: "status_code \<lparr> status_code = 404, response_text = [] \<rparr> \<noteq> 200" by simp
  have s2: "status_code \<lparr> status_code = 404, response_text = [] \<rparr>
              \<notin> set (retry_statuses DEFAULT_CONFIG)"
    by (simp add: DEFAULT_CONFIG_def)
  from fetch_with_retries_fatal_status
    [where k = 1 and config = DEFAULT_CONFIG and net = net_gone and tr = "[]" and url = "''u''",
     OF k pre at s1 s2] pre at s2 k
  show ?thesis
    by (simp add: retry_events_def requests_made_def DEFAULT_CONFIG_def)
qed

text \<open>
  C10. With \<open>max_retries \<le> 0\<close> the range of attempts is empty: the fetcher returns
  \<open>None\<close> and leaves the trace as it was (no request, no delay).
\<close>

theorem fetch_with_retries_no_attempts:
  assumes "max_retries config \<le> 0"
  shows "fetch_with_retries net url config tr = (None, tr)"
  using assms by (simp add: fetch_with_retries_def)

theorem fetch_with_retries_no_attempts_witness:
  "max_retries (DEFAULT_CONFIG \<lparr> max_retries := - 2 \<rparr>) \<le> 0 \<and>
   fetch_with_retries net_ok ''u'' (DEFAULT_CONFIG \<lparr> max_retries := - 2 \<rparr>) [SessionCreated] =
     (None, [SessionCreated])"
proof -
  have h: "max_retries (DEFAULT_CONFIG \<lparr> max_retries := - 2 \<rparr>) \<le> 0" by simp
  from fetch_with_retries_no_attempts [OF h] h show ?thesis by simp
qed

section \<open>Properties of the page extractor\<close>


lemma urljoin_empty_ref: "urljoin resolve base [] = Inr base"
  by (simp add: urljoin_def)

lemma attr_get_missing: "\<not> has_attr a key \<Longrightarrow> attr_get a key d = d"
  by (cases a) auto

lemma heading_attr_Some: "heading_link c = Some a \<Longrightarrow> heading_attr c key = attr_get a key []"
  by (simp add: heading_attr_def)

lemma resolves_Inr: "resolves resolve base url \<Longrightarrow> \<exists>u. urljoin resolve base url = Inr u"
  by (auto simp: resolves_def split: sum.splits)

text \<open>
  A card with a heading link whose link resolves yields a record, whatever else it
  lacks.
\<close>

lemma card_row_of_heading_link:
  assumes "heading_link c = Some a"
    and "urljoin resolve page_url (strip (attr_get a ''href'' [])) = Inr u"
  shows "\<exists>r. card_row resolve page_url c = Inr r \<and>
           title r = strip (attr_get a ''title'' []) \<and>
           product_url r = u \<and>
           (select_one ''p'' [''price_color''] c = None \<longrightarrow> price_raw r = []) \<and>
           (select_one ''p'' [''instock'', ''availability''] c = None \<longrightarrow> availability r = []) \<and>
           (select_one ''p'' [''star-rating''] c = None \<longrightarrow> rating r = [])"
  using assms
  by (auto simp: heading_link_def card_row_def Let_def split: option.splits)

text \<open>The loop over the cards appends one record per card, in order.\<close>

lemma parse_cards_all:
  "list_all (\<lambda>c. \<exists>r. card_row resolve page_url c = Inr r) cards \<Longrightarrow>
   \<exists>rs. parse_cards resolve page_url acc cards = Inr (acc @ rs) \<and>
        list_all2 (\<lambda>c r. card_row resolve page_url c = Inr r) cards rs"
proof (induction cards arbitrary: acc)
  case Nil
  then show ?case by simp
next
  case (Cons c cards)
  then obtain r where r: "card_row resolve page_url c = Inr r" by auto
  from Cons.prems have "list_all (\<lambda>c. \<exists>r. card_row resolve page_url c = Inr r) cards" by simp
  from Cons.IH [OF this, of "acc @ [r]"]
  obtain rs where "parse_cards resolve page_url (acc @ [r]) cards = Inr ((acc @ [r]) @ rs)"
    "list_all2 (\<lambda>c r. card_row resolve page_url c = Inr r) cards rs" by blast
  with r have "parse_cards resolve page_url acc (c # cards) = Inr (acc @ (r # rs)) \<and>
        list_all2 (\<lambda>c r. card_row resolve page_url c = Inr r) (c # cards) (r # rs)"
    by simp
  then show ?case by blast
qed

lemma parse_page_of_cards:
  assumes "list_all has_heading_link (item_cards parser html)"
    and "next_anchor_ok parser html"
    and "links_resolve resolve page_url parser html"
  shows "\<exists>rows next_url.
           parse_books_from_catalog_page parser resolve html page_url = Inr (rows, next_url) \<and>
           list_all2 (\<lambda>c r. card_row resolve page_url c = Inr r) (item_cards parser html) rows"
proof -
  have "\<exists>r. card_row resolve page_url c = Inr r" if c: "c \<in> set (item_cards parser html)" for c
  proof -
    from assms(1) c obtain a where a: "heading_link c = Some a"
      by (auto simp: list_all_iff has_heading_link_def)
    from assms(3) c have "resolves resolve page_url (strip (heading_attr c ''href''))"
      by (simp add: links_resolve_def list_all_iff)
    from resolves_Inr [OF this]
    obtain u where "urljoin resolve page_url (strip (attr_get a ''href'' [])) = Inr u"
      by (auto simp: heading_attr_Some [OF a])
    from card_row_of_heading_link [OF a this] show ?thesis by blast
  qed
  then have "list_all (\<lambda>c. \<exists>r. card_row resolve page_url c = Inr r) (item_cards parser html)"
    by (simp add: list_all_iff)
  from parse_cards_all [OF this, of "[]"]
  obtain rs where rs: "parse_cards resolve page_url [] (item_cards parser html) = Inr rs"
    "list_all2 (\<lambda>c r. card_row resolve page_url c = Inr r) (item_cards parser html) rs"
    by auto
  show ?thesis
  proof (cases "next_anchor parser html")
    case None
    with rs show ?thesis
      by (simp add: parse_books_from_catalog_page_def item_cards_def next_anchor_def Let_def)
  next
    case (Some a)
    with assms(2) have "has_attr a ''href''" by (simp add: next_anchor_ok_def)
    then obtain h where h: "attr_index a ''href'' = Inr h" "attr_get a ''href'' [] = h"
      by (cases a) auto
    from assms(3) Some h(2) have "resolves resolve page_url h"
      by (simp add: links_resolve_def)
    from resolves_Inr [OF this] obtain u where "urljoin resolve page_url h = Inr u" by blast
    with rs Some h show ?thesis
      by (simp add: parse_books_from_catalog_page_def item_cards_def next_anchor_def Let_def)
  qed
qed

text \<open>Evaluation of the concrete documents.\<close>

lemmas dom_eval = BeautifulSoup_def select_def select_one_def select_one_child_def find_tag_def
  item_cards_def heading_link_def has_heading_link_def next_anchor_def next_anchor_ok_def
  example_parser_def card_full_def card_bare_def card_anonymous_def card_blank_def
  card_headless_def card_badlink_def pager_def

lemmas parse_eval = dom_eval parse_books_from_catalog_page_def card_row_def Let_def
  get_text_def strip_def isspace_def urljoin_def example_resolve_def List.map_filter_def

lemmas link_eval = dom_eval links_resolve_def resolves_def heading_attr_def strip_def
  isspace_def urljoin_def example_resolve_def

lemma ex_parse_p1:
  "parse_books_from_catalog_page example_parser example_resolve ''p1''
     ''http://b/catalogue/page-1.html'' =
   Inr ([\<lparr>title = ''A Light'', price_raw = CHR 0xA3 # ''51.77'', availability = ''In stock'',
           rating = ''Three'', product_url = ''http://b/catalogue/a/index.html''\<rparr>,
         \<lparr>title = ''Bare'', price_raw = [], availability = [], rating = [],
           product_url = ''http://b/catalogue/b/index.html''\<rparr>],
        Some ''http://b/catalogue/page-2.html'')"
  by (simp add: parse_eval)

lemma ex_parse_p2:
  "parse_books_from_catalog_page example_parser example_resolve ''p2''
     ''http://b/catalogue/page-2.html'' =
   Inr ([\<lparr>title = ''Bare'', price_raw = [], availability = [], rating = [],
           product_url = ''http://b/catalogue/b/index.html''\<rparr>],
        Some ''http://b/catalogue/page-3.html'')"
  by (simp add: parse_eval)

lemma ex_parse_p3:
  "parse_books_from_catalog_page example_parser example_resolve ''p3''
     ''http://b/catalogue/page-3.html'' =
   Inr ([\<lparr>title = ''A Light'', price_raw = CHR 0xA3 # ''51.77'', availability = ''In stock'',
           rating = ''Three'', product_url = ''http://b/catalogue/a/index.html''\<rparr>],
        None)"
  by (simp add: parse_eval)

lemma ex_parse_none:
  "parse_books_from_catalog_page example_parser example_resolve ''none'' url = Inr ([], None)"
  by (simp add: parse_eval)




text \<open>
  C4 (as amended). For a document in which every item card has a heading link (an
  \<open>a\<close> inside an \<open>h3\<close>), whose next anchor, if there is one, carries an \<open>href\<close>, and
  whose links resolve against the page URL: the extractor does not fail; it returns
  one record per card, each the record of its own card whatever the other cards
  lack; and a missing price element, availability element, rating marker or
  \<open>title\<close> attribute leaves the empty string in that field.
\<close>

theorem parse_books_missing_fields:
  assumes "list_all has_heading_link (item_cards parser html)"
    and "next_anchor_ok parser html"
    and "links_resolve resolve page_url parser html"
  shows "\<exists>rows next_url.
           parse_books_from_catalog_page parser resolve html page_url = Inr (rows, next_url) \<and>
           length rows = length (item_cards parser html) \<and>
           list_all2 (\<lambda>c r. card_row resolve page_url c = Inr r \<and> degraded_record c r)
             (item_cards parser html) rows"
proof -
  from parse_page_of_cards [OF assms]
  obtain rows next_url where
    p: "parse_books_from_catalog_page parser resolve html page_url = Inr (rows, next_url)"
    and each: "list_all2 (\<lambda>c r. card_row resolve page_url c = Inr r) (item_cards parser html) rows"
    by blast
  have "degraded_record c r"
    if c: "c \<in> set (item_cards parser html)" and cr: "card_row resolve page_url c = Inr r" for c r
  proof -
    from assms(1) c obtain a where a: "heading_link c = Some a"
      by (auto simp: list_all_iff has_heading_link_def)
    from assms(3) c have "resolves resolve page_url (strip (heading_attr c ''href''))"
      by (simp add: links_resolve_def list_all_iff)
    from resolves_Inr [OF this]
    obtain u where u: "urljoin resolve page_url (strip (attr_get a ''href'' [])) = Inr u"
      by (auto simp: heading_attr_Some [OF a])
    from card_row_of_heading_link [OF a u] cr
    have f: "title r = strip (attr_get a ''title'' [])"
      "select_one ''p'' [''price_color''] c = None \<longrightarrow> price_raw r = []"
      "select_one ''p'' [''instock'', ''availability''] c = None \<longrightarrow> availability r = []"
      "select_one ''p'' [''star-rating''] c = None \<longrightarrow> rating r = []"
      by auto
    have "title r = []" if "\<not> has_attr a ''title''"
      using f(1) attr_get_missing [OF that, of "[]"] by (simp add: strip_def)
    then show ?thesis
      using f(2-4) by (simp add: degraded_record_def heading_has_attr_def a)
  qed
  with each have "list_all2 (\<lambda>c r. card_row resolve page_url c = Inr r \<and> degraded_record c r)
      (item_cards parser html) rows"
    by (auto simp: list_all2_conv_all_nth)
  with p each show ?thesis
    by (auto dest: list_all2_lengthD)
qed

theorem parse_books_missing_fields_witness:
  "list_all has_heading_link (item_cards example_parser ''degraded'') \<and>
   next_anchor_ok example_parser ''degraded'' \<and>
   links_resolve example_resolve ''http://b/catalogue/page-1.html'' example_parser ''degraded'' \<and>
   item_cards example_parser ''degraded'' = [card_anonymous, card_full] \<and>
   select_one ''p'' [''price_color''] card_anonymous = None \<and>
   select_one ''p'' [''instock'', ''availability''] card_anonymous = None \<and>
   select_one ''p'' [''star-rating''] card_anonymous = None \<and>
   \<not> heading_has_attr card_anonymous ''title'' \<and>
   (\<exists>rows next_url.
      parse_books_from_catalog_page example_parser example_resolve ''degraded''
        ''http://b/catalogue/page-1.html'' = Inr (rows, next_url) \<and>
      length rows = 2 \<and>
      title (hd rows) = [] \<and> price_raw (hd rows) = [] \<and> availability (hd rows) = [] \<and>
      rating (hd rows) = [] \<and>
      title (last rows) = ''A Light'' \<and>
      list_all2 (\<lambda>c r. card_row example_resolve ''http://b/catalogue/page-1.html'' c = Inr r \<and>
                   degraded_record c r)
        (item_cards example_parser ''degraded'') rows)"
proof -
  have hl: "list_all has_heading_link (item_cards example_parser ''degraded'')"
    by (simp add: dom_eval)
  have nx: "next_anchor_ok example_parser ''degraded''"
    by (simp add: dom_eval)
  have lr: "links_resolve example_resolve ''http://b/catalogue/page-1.html'' example_parser
              ''degraded''"
    by (simp add: link_eval)
  have cards: "item_cards example_parser ''degraded'' = [card_anonymous, card_full]"
    by (simp add: dom_eval)
  have missing: "select_one ''p'' [''price_color''] card_anonymous = None"
    "select_one ''p'' [''instock'', ''availability''] card_anonymous = None"
    "select_one ''p'' [''star-rating''] card_anonymous = None"
    "\<not> heading_has_attr card_anonymous ''title''"
    by (simp_all add: dom_eval heading_has_attr_def)
  have ev: "parse_books_from_catalog_page example_parser example_resolve ''degraded''
      ''http://b/catalogue/page-1.html'' =
    Inr ([\<lparr>title = [], price_raw = [], availability = [], rating = [],
            product_url = ''http://b/catalogue/page-1.html''\<rparr>,
          \<lparr>title = ''A Light'', price_raw = CHR 0xA3 # ''51.77'', availability = ''In stock'',
            rating = ''Three'', product_url = ''http://b/catalogue/a/index.html''\<rparr>], None)"
    by (simp add: parse_eval)
  from parse_books_missing_fields [OF hl nx lr]
  obtain rows next_url where
    "parse_books_from_catalog_page example_parser example_resolve ''degraded''
       ''http://b/catalogue/page-1.html'' = Inr (rows, next_url)"
    "list_all2 (\<lambda>c r. card_row example_resolve ''http://b/catalogue/page-1.html'' c = Inr r \<and>
                 degraded_record c r)
       (item_cards example_parser ''degraded'') rows"
    by blast
  with ev hl nx lr cards missing show ?thesis
    by simp
qed

theorem parse_books_missing_fields_counterexample:
  "item_cards example_parser ''degraded'' = [card_anonymous, card_full] \<and>
   \<not> heading_has_attr card_anonymous ''href'' \<and>
   parse_books_from_catalog_page example_parser example_resolve ''degraded''
     ''http://b/catalogue/page-1.html'' =
     Inr ([\<lparr>title = [], price_raw = [], availability = [], rating = [],
             product_url = ''http://b/catalogue/page-1.html''\<rparr>,
           \<lparr>title = ''A Light'', price_raw = CHR 0xA3 # ''51.77'', availability = ''In stock'',
             rating = ''Three'', product_url = ''http://b/catalogue/a/index.html''\<rparr>], None) \<and>
   item_cards example_parser ''headless'' = [card_headless] \<and>
   select_one ''p'' [''star-rating''] card_headless = None \<and>
   parse_books_from_catalog_page example_parser example_resolve ''headless''
     ''http://b/catalogue/page-1.html'' = Inl AttributeError \<and>
   item_cards example_parser ''nolink'' = [card_bare] \<and>
   select_one ''p'' [''price_color''] card_bare = None \<and>
   parse_books_from_catalog_page example_parser example_resolve ''nolink''
     ''http://b/catalogue/page-1.html'' = Inl KeyError \<and>
   item_cards example_parser ''badlink'' = [card_badlink] \<and>
   select_one ''p'' [''price_color''] card_badlink = None \<and>
   parse_books_from_catalog_page example_parser example_resolve ''badlink''
     ''http://b/catalogue/page-1.html'' = Inl ValueError"
  by (simp add: parse_eval heading_has_attr_def)

section \<open>Properties of the traversal driver\<close>

text \<open>Unfolding the loop: its exits, and its passage through completed pages.\<close>

lemma scrape_loop_None:
  "scrape_loop parser resolve net config None all_rows n tr = Some (Inr all_rows, tr)"
  by (subst scrape_loop.simps) simp

lemma scrape_loop_empty_url:
  "scrape_loop parser resolve net config (Some []) all_rows n tr = Some (Inr all_rows, tr)"
  by (subst scrape_loop.simps) simp

lemma scrape_loop_page_stops:
  assumes "url \<noteq> []" and "page_stops parser resolve net config url tr"
  shows "scrape_loop parser resolve net config (Some url) all_rows n tr =
           Some (Inr all_rows, snd (fetch_with_retries net url config tr))"
  using assms
  by (subst scrape_loop.simps)
     (auto simp: page_stops_def split: prod.splits option.splits sum.splits)

lemma scrape_loop_completed:
  "completed_pages parser resolve net config cur tr pages = Some (cur', tr') \<Longrightarrow>
   scrape_loop parser resolve net config cur all_rows n tr =
   scrape_loop parser resolve net config cur' (all_rows @ tag_pages n pages)
     (n + int (length pages)) tr'"
proof (induction pages arbitrary: cur tr all_rows n)
  case Nil
  then show ?case by simp
next
  case (Cons rows pages)
  from Cons.prems obtain url response tr1 next_url where
    cur: "cur = Some url" and url: "url \<noteq> []"
    and f: "fetch_with_retries net url config tr = (Some response, tr1)"
    and p: "parse_books_from_catalog_page parser resolve (response_text response) url =
              Inr (rows, next_url)"
    and ne: "rows \<noteq> []"
    and rest: "completed_pages parser resolve net config next_url
                 (sleep_human (delay_seconds config) tr1) pages = Some (cur', tr')"
    by (auto split: option.splits if_splits prod.splits sum.splits)
  have "scrape_loop parser resolve net config cur all_rows n tr =
        scrape_loop parser resolve net config next_url
          (all_rows @ map (set_page_num (n + 1)) rows) (n + 1)
          (sleep_human (delay_seconds config) tr1)"
    using cur url f p ne by (subst scrape_loop.simps) simp
  also have "\<dots> = scrape_loop parser resolve net config cur'
      ((all_rows @ map (set_page_num (n + 1)) rows) @ tag_pages (n + 1) pages)
      (n + 1 + int (length pages)) tr'"
    by (rule Cons.IH [OF rest])
  finally show ?case by (simp add: ac_simps)
qed

lemma tag_pages_enumerate:
  "tag_pages (int k) pages =
     concat (map (\<lambda>(i, rows). map (set_page_num (int i)) rows) (enumerate (Suc k) pages))"
proof (induction pages arbitrary: k)
  case Nil
  then show ?case by simp
next
  case (Cons rows pages)
  have "int k + 1 = int (Suc k)" by simp
  then have "tag_pages (int k) (rows # pages) =
      map (set_page_num (int (Suc k))) rows @ tag_pages (int (Suc k)) pages"
    by (simp only: tag_pages.simps)
  then show ?case by (simp only: Cons.IH [of "Suc k"] enumerate_simps list.map concat.simps prod.case)
qed

lemma tag_pages_0: "tag_pages 0 pages = tagged_pages pages"
  using tag_pages_enumerate [of 0 pages] by (simp add: tagged_pages_def)

lemma truncate_set_page_num [simp]: "row.truncate (set_page_num n r) = r"
  by (simp add: set_page_num_def row.defs tagged_row.defs)

lemma page_num_set_page_num [simp]: "page_num (set_page_num n r) = n"
  by (simp add: set_page_num_def row.defs tagged_row.defs)

lemma product_url_set_page_num [simp]: "product_url (set_page_num n r) = product_url r"
  by (simp add: set_page_num_def row.defs tagged_row.defs)

lemma truncate_tagged: 
  "map row.truncate (concat (map (\<lambda>(i, rows). map (set_page_num (int i)) rows) (enumerate k pages)))
     = concat pages"
  by (induction pages arbitrary: k) (simp_all add: comp_def)

lemma page_num_tagged: 
  "map page_num (concat (map (\<lambda>(i, rows). map (set_page_num (int i)) rows) (enumerate k pages)))
     = concat (map (\<lambda>(i, rows). replicate (length rows) (int i)) (enumerate k pages))"
  by (induction pages arbitrary: k) (simp_all add: comp_def map_replicate_const)

lemma scrape_all_books_completed:
  assumes "urljoin resolve (base_url config) ''catalogue/page-1.html'' = Inr first"
    and "completed_pages parser resolve net config (Some first) [SessionCreated] pages =
           Some (cur, tr)"
  shows "scrape_all_books parser resolve net config =
           scrape_loop parser resolve net config cur (tagged_pages pages) (int (length pages)) tr"
  using scrape_loop_completed [OF assms(2), of "[]" 0] assms(1)
  by (simp add: scrape_all_books_def tag_pages_0)

text \<open>Nothing in the fetcher or in the loop closes the session.\<close>

lemma fetch_attempts_session_open:
  "session_open tr \<Longrightarrow> session_open (snd (fetch_attempts net url config xs tr))"
proof (induction xs arbitrary: tr)
  case Nil
  then show ?case by simp
next
  case (Cons x xs)
  let ?tr2 = "sleep_human (delay_seconds config)
                (tr @ [Get url (headers config) (timeout_seconds config)])"
  from Cons.prems have o1: "session_open (tr @ [Get url (headers config) (timeout_seconds config)])"
    by (simp add: session_open_def)
  then have "session_open ?tr2"
    by (simp add: session_open_def sleep_human_def)
  from Cons.IH [OF this] o1 show ?case
    by (auto simp: session_get_def split: get_result.splits)
qed

lemma fetch_with_retries_session_open:
  "session_open tr \<Longrightarrow> session_open (snd (fetch_with_retries net url config tr))"
  by (simp add: fetch_with_retries_def fetch_attempts_session_open)

lemma scrape_loop_session_open:
  assumes "scrape_loop parser resolve net config cur all_rows n tr = Some y"
  shows "session_open tr \<longrightarrow> session_open (snd y)"
  apply (rule scrape_loop.raw_induct
      [where P = "\<lambda>parser resolve net config cur all_rows n tr y.
                    session_open tr \<longrightarrow> session_open (snd y)", OF _ assms])
  subgoal premises prems for loop parser resolve net config cur all_rows n tr y
  proof
    assume o: "session_open tr"
    note body = prems(2)
    show "session_open (snd y)"
    proof (cases cur)
      case None
      with body o show ?thesis by auto
    next
      case (Some url)
      note cur = this
      show ?thesis
      proof (cases "url = []")
        case True
        with cur body o show ?thesis by auto
      next
        case False
        obtain resp tr1 where f: "fetch_with_retries net url config tr = (resp, tr1)"
          by (cases "fetch_with_retries net url config tr") auto
        from fetch_with_retries_session_open [OF o, of net url config] f
        have o1: "session_open tr1" by simp
        then have o2: "session_open (sleep_human (delay_seconds config) tr1)"
          by (simp add: session_open_def sleep_human_def)
        show ?thesis
        proof (cases resp)
          case None
          with cur False f body o1 show ?thesis by auto
        next
          case (Some response)
          note resp = this
          show ?thesis
          proof (cases "parse_books_from_catalog_page parser resolve (response_text response) url")
            case (Inl e)
            with cur False f resp body o1 show ?thesis by auto
          next
            case (Inr pr)
            obtain rows next_url where pr: "pr = (rows, next_url)" by (cases pr) auto
            show ?thesis
            proof (cases "rows = []")
              case True
              with cur False f resp Inr pr body o1 show ?thesis by auto
            next
              case nonempty: False
              from cur False f resp Inr pr nonempty body
              have "loop parser resolve net config next_url
                      (all_rows @ map (set_page_num (n + 1)) rows) (n + 1)
                      (sleep_human (delay_seconds config) tr1) = Some y"
                by simp
              from prems(1) [OF this] o2 show ?thesis by simp
            qed
          qed
        qed
      qed
    qed
  qed
  done

text \<open>A first attempt that decides the fetch.\<close>

lemma fetch_with_retries_first_ok:
  assumes "1 \<le> max_retries config"
    and "net (requests_made tr) url = Resp response"
    and "status_code response = 200"
  shows "fetch_with_retries net url config tr =
           (Some response, tr @ [Get url (headers config) (timeout_seconds config)])"
proof -
  from assms(1) have "[1..max_retries config] = 1 # [2..max_retries config]"
    by (simp add: upto_rec1)
  with assms(2,3) show ?thesis
    by (simp add: fetch_with_retries_def session_get_def)
qed

lemma fetch_with_retries_first_fatal:
  assumes "1 \<le> max_retries config"
    and "net (requests_made tr) url = Resp response"
    and "status_code response \<noteq> 200"
    and "status_code response \<notin> set (retry_statuses config)"
  shows "fetch_with_retries net url config tr =
           (None, tr @ [Get url (headers config) (timeout_seconds config)])"
proof -
  from assms(1) have "[1..max_retries config] = 1 # [2..max_retries config]"
    by (simp add: upto_rec1)
  with assms(2-4) show ?thesis
    by (simp add: fetch_with_retries_def session_get_def)
qed

subsection \<open>Runs on the example site\<close>

lemma site_config_simps [simp]:
  "1 \<le> max_retries site_config" "max_retries site_config = 2"
  "base_url site_config = ''http://b/''"
  "delay_seconds site_config = (1.5, 3.5)"
  "retry_statuses site_config = [403, 408, 429, 500, 502, 503, 504]"
  by (simp_all add: site_config_def DEFAULT_CONFIG_def)

lemmas urls = page1_url_def page2_url_def page3_url_def

lemma ex_first_url:
  "urljoin example_resolve (base_url site_config) ''catalogue/page-1.html'' = Inr page1_url"
  by (simp add: urljoin_def example_resolve_def urls)

lemma ex_fetch_site:
  "fetch_with_retries net_site page1_url site_config tr =
     (Some \<lparr>status_code = 200, response_text = ''p1''\<rparr>, tr @ [site_get page1_url])"
  "fetch_with_retries net_site page2_url site_config tr =
     (Some \<lparr>status_code = 200, response_text = ''p2''\<rparr>, tr @ [site_get page2_url])"
  "fetch_with_retries net_site page3_url site_config tr =
     (Some \<lparr>status_code = 200, response_text = ''p3''\<rparr>, tr @ [site_get page3_url])"
  unfolding site_get_def
  by (rule fetch_with_retries_first_ok; simp add: net_site_def urls)+

lemma ex_fetch_site_404:
  "fetch_with_retries net_site_404 page1_url site_config tr =
     (Some \<lparr>status_code = 200, response_text = ''p1''\<rparr>, tr @ [site_get page1_url])"
  "fetch_with_retries net_site_404 page2_url site_config tr =
     (None, tr @ [site_get page2_url])"
proof -
  show "fetch_with_retries net_site_404 page1_url site_config tr =
     (Some \<lparr>status_code = 200, response_text = ''p1''\<rparr>, tr @ [site_get page1_url])"
    unfolding site_get_def
    by (rule fetch_with_retries_first_ok) (simp_all add: net_site_404_def urls)
  show "fetch_with_retries net_site_404 page2_url site_config tr =
     (None, tr @ [site_get page2_url])"
    unfolding site_get_def
    by (rule fetch_with_retries_first_fatal
          [where response = "\<lparr>status_code = 404, response_text = []\<rparr>"])
       (simp_all add: net_site_404_def urls)
qed

lemma ex_fetch_site_empty:
  "fetch_with_retries net_site_empty page1_url site_config tr =
     (Some \<lparr>status_code = 200, response_text = ''p1''\<rparr>, tr @ [site_get page1_url])"
  "fetch_with_retries net_site_empty page2_url site_config tr =
     (Some \<lparr>status_code = 200, response_text = ''none''\<rparr>, tr @ [site_get page2_url])"
  unfolding site_get_def
  by (rule fetch_with_retries_first_ok; simp add: net_site_empty_def urls)+

lemma ex_parse_site:
  "parse_books_from_catalog_page example_parser example_resolve ''p1'' page1_url =
     Inr ([row_full, row_bare], Some page2_url)"
  "parse_books_from_catalog_page example_parser example_resolve ''p2'' page2_url =
     Inr ([row_bare], Some page3_url)"
  "parse_books_from_catalog_page example_parser example_resolve ''p3'' page3_url =
     Inr ([row_full], None)"
  using ex_parse_p1 ex_parse_p2 ex_parse_p3
  by (simp_all add: urls row_full_def row_bare_def)

lemma page_urls_nonempty [simp]: "page1_url \<noteq> []" "page2_url \<noteq> []" "page3_url \<noteq> []"
  by (simp_all add: urls)

lemma rows_nonempty [simp]: "row_full \<noteq> row_bare"
  by (simp add: row_full_def row_bare_def)

lemma ex_completed_site:
  "completed_pages example_parser example_resolve net_site site_config
     (Some page1_url) [SessionCreated] [[row_full, row_bare], [row_bare], [row_full]] =
   Some (None, [SessionCreated, site_get page1_url, site_sleep, site_get page2_url,
                site_sleep, site_get page3_url, site_sleep])"
  by (simp add: ex_fetch_site ex_parse_site sleep_human_def site_sleep_def)

lemma ex_completed_site_404:
  "completed_pages example_parser example_resolve net_site_404 site_config
     (Some page1_url) [SessionCreated] [[row_full, row_bare]] =
   Some (Some page2_url, [SessionCreated, site_get page1_url, site_sleep])"
  by (simp add: ex_fetch_site_404 ex_parse_site sleep_human_def site_sleep_def)

lemma ex_completed_site_empty:
  "completed_pages example_parser example_resolve net_site_empty site_config
     (Some page1_url) [SessionCreated] [[row_full, row_bare]] =
   Some (Some page2_url, [SessionCreated, site_get page1_url, site_sleep])"
  by (simp add: ex_fetch_site_empty ex_parse_site sleep_human_def site_sleep_def)

lemma ex_stops_404:
  "page_stops example_parser example_resolve net_site_404 site_config page2_url tr"
  by (simp add: page_stops_def ex_fetch_site_404)

lemma ex_stops_empty:
  "page_stops example_parser example_resolve net_site_empty site_config page2_url tr"
  by (simp add: page_stops_def ex_fetch_site_empty ex_parse_none)

lemma ex_tagged_1:
  "tagged_pages [[row_full, row_bare]] = [set_page_num 1 row_full, set_page_num 1 row_bare]"
  by (simp add: tagged_pages_def enumerate_simps)

lemma ex_tagged_3:
  "tagged_pages [[row_full, row_bare], [row_bare], [row_full]] =
     [set_page_num 1 row_full, set_page_num 1 row_bare, set_page_num 2 row_bare,
      set_page_num 3 row_full]"
  by (simp add: tagged_pages_def enumerate_simps)

lemma ex_run_site:
  "scrape_all_books example_parser example_resolve net_site site_config =
     Some (Inr [set_page_num 1 row_full, set_page_num 1 row_bare, set_page_num 2 row_bare,
                set_page_num 3 row_full],
           [SessionCreated, site_get page1_url, site_sleep, site_get page2_url,
            site_sleep, site_get page3_url, site_sleep])"
  using scrape_all_books_completed [OF ex_first_url ex_completed_site]
  by (simp add: scrape_loop_None ex_tagged_3)

lemma ex_run_site_404:
  "scrape_all_books example_parser example_resolve net_site_404 site_config =
     Some (Inr [set_page_num 1 row_full, set_page_num 1 row_bare],
           [SessionCreated, site_get page1_url, site_sleep, site_get page2_url])"
  using scrape_all_books_completed [OF ex_first_url ex_completed_site_404]
    scrape_loop_page_stops [OF page_urls_nonempty(2) ex_stops_404]
  by (simp add: ex_tagged_1 ex_fetch_site_404)

lemma ex_run_site_empty:
  "scrape_all_books example_parser example_resolve net_site_empty site_config =
     Some (Inr [set_page_num 1 row_full, set_page_num 1 row_bare],
           [SessionCreated, site_get page1_url, site_sleep, site_get page2_url])"
  using scrape_all_books_completed [OF ex_first_url ex_completed_site_empty]
    scrape_loop_page_stops [OF page_urls_nonempty(2) ex_stops_empty]
  by (simp add: ex_tagged_1 ex_fetch_site_empty)

lemma ex_fetch_down:
  "fetch_with_retries net_down page1_url site_config [SessionCreated] =
     (None, [SessionCreated, site_get page1_url, site_sleep, site_get page1_url, site_sleep])"
  by (simp add: fetch_with_retries_def upto.simps session_get_def sleep_human_def net_down_def
      site_get_def site_sleep_def)

subsection \<open>The claims about the driver\<close>

text \<open>
  C5. For a linear chain of pages (the run starts at the first page, whose URL is
  joined from the base URL; every page has a non-empty URL, is fetched successfully
  and parses to at least one record; every page but the last links to the next, and
  the last has no next link), the driver returns the records of all pages, in
  page-then-card order, each tagged with the 1-based ordinal of its page: stripped of
  their tags they are the concatenation of the pages' records, and their page numbers
  are 1 for the records of the first page, 2 for those of the second, and so on.
\<close>

theorem scrape_all_books_linear_chain:
  assumes "urljoin resolve (base_url config) ''catalogue/page-1.html'' = Inr first"
    and "completed_pages parser resolve net config (Some first) [SessionCreated] pages =
           Some (None, tr')"
  shows "scrape_all_books parser resolve net config = Some (Inr (tagged_pages pages), tr') \<and>
         map row.truncate (tagged_pages pages) = concat pages \<and>
         map page_num (tagged_pages pages) =
           concat (map (\<lambda>(i, rows). replicate (length rows) (int i)) (enumerate 1 pages))"
  using scrape_all_books_completed [OF assms]
  by (simp add: scrape_loop_None tagged_pages_def truncate_tagged page_num_tagged)

theorem scrape_all_books_linear_chain_witness:
  "urljoin example_resolve (base_url site_config) ''catalogue/page-1.html'' = Inr page1_url \<and>
   completed_pages example_parser example_resolve net_site site_config
     (Some page1_url) [SessionCreated] [[row_full, row_bare], [row_bare], [row_full]] =
     Some (None, [SessionCreated, site_get page1_url, site_sleep, site_get page2_url,
                  site_sleep, site_get page3_url, site_sleep]) \<and>
   scrape_all_books example_parser example_resolve net_site site_config =
     Some (Inr [set_page_num 1 row_full, set_page_num 1 row_bare, set_page_num 2 row_bare,
                set_page_num 3 row_full],
           [SessionCreated, site_get page1_url, site_sleep, site_get page2_url,
            site_sleep, site_get page3_url, site_sleep]) \<and>
   map page_num [set_page_num 1 row_full, set_page_num 1 row_bare, set_page_num 2 row_bare,
                 set_page_num 3 row_full] = [1, 1, 2, 3]"
  using scrape_all_books_linear_chain [OF ex_first_url ex_completed_site]
    ex_first_url ex_completed_site
  by (simp add: ex_tagged_3)

text \<open>
  C6. After any number of completed pages, if the next page's fetch fails or its body
  parses to zero records, the driver returns normally (\<open>Inr\<close>) with exactly the
  tagged records of the completed pages; the trace ends where the fetch of that page
  returned, so nothing is requested after it.
\<close>

theorem scrape_all_books_stops:
  assumes "urljoin resolve (base_url config) ''catalogue/page-1.html'' = Inr first"
    and "completed_pages parser resolve net config (Some first) [SessionCreated] pages =
           Some (Some url, tr)"
    and "url \<noteq> []"
    and "page_stops parser resolve net config url tr"
  shows "scrape_all_books parser resolve net config =
           Some (Inr (tagged_pages pages), snd (fetch_with_retries net url config tr)) \<and>
         map row.truncate (tagged_pages pages) = concat pages"
  using scrape_all_books_completed [OF assms(1,2)] scrape_loop_page_stops [OF assms(3,4)]
  by (simp add: tagged_pages_def truncate_tagged)

theorem scrape_all_books_stops_witness:
  "urljoin example_resolve (base_url site_config) ''catalogue/page-1.html'' = Inr page1_url \<and>
   completed_pages example_parser example_resolve net_site_404 site_config
     (Some page1_url) [SessionCreated] [[row_full, row_bare]] =
     Some (Some page2_url, [SessionCreated, site_get page1_url, site_sleep]) \<and>
   page2_url \<noteq> [] \<and>
   page_stops example_parser example_resolve net_site_404 site_config page2_url
     [SessionCreated, site_get page1_url, site_sleep] \<and>
   fst (fetch_with_retries net_site_404 page2_url site_config
     [SessionCreated, site_get page1_url, site_sleep]) = None \<and>
   scrape_all_books example_parser example_resolve net_site_404 site_config =
     Some (Inr [set_page_num 1 row_full, set_page_num 1 row_bare],
           [SessionCreated, site_get page1_url, site_sleep, site_get page2_url]) \<and>
   completed_pages example_parser example_resolve net_site_empty site_config
     (Some page1_url) [SessionCreated] [[row_full, row_bare]] =
     Some (Some page2_url, [SessionCreated, site_get page1_url, site_sleep]) \<and>
   page_stops example_parser example_resolve net_site_empty site_config page2_url
     [SessionCreated, site_get page1_url, site_sleep] \<and>
   fst (fetch_with_retries net_site_empty page2_url site_config
     [SessionCreated, site_get page1_url, site_sleep]) =
     Some \<lparr>status_code = 200, response_text = ''none''\<rparr> \<and>
   scrape_all_books example_parser example_resolve net_site_empty site_config =
     Some (Inr [set_page_num 1 row_full, set_page_num 1 row_bare],
           [SessionCreated, site_get page1_url, site_sleep, site_get page2_url])"
proof -
  let ?tr = "[SessionCreated, site_get page1_url, site_sleep]"
  note a = ex_completed_site_404 and b = ex_completed_site_empty
  note sa = ex_stops_404 [of ?tr] and sb = ex_stops_empty [of ?tr]
  from scrape_all_books_stops [OF ex_first_url a page_urls_nonempty(2) sa]
    scrape_all_books_stops [OF ex_first_url b page_urls_nonempty(2) sb] a b sa sb ex_first_url
  show ?thesis
    by (simp add: ex_tagged_1 ex_fetch_site_404 ex_fetch_site_empty)
qed

text \<open>
  C8. When the crawl gathers no record (the first page's fetch fails, or the first
  page parses to zero records, or there is no first URL to visit), the driver
  returns normally with the empty frame, and \<open>clean_and_validate\<close> rejects the empty
  frame with a \<open>ValueError\<close>.
\<close>

theorem empty_crawl_rejected:
  assumes "urljoin resolve (base_url config) ''catalogue/page-1.html'' = Inr first"
    and "first = [] \<or> page_stops parser resolve net config first [SessionCreated]"
  shows "scrape_all_books parser resolve net config =
           Some (Inr [], if first = [] then [SessionCreated]
                         else snd (fetch_with_retries net first config [SessionCreated])) \<and>
         clean_and_validate to_numeric [] = Inl ValueError"
proof -
  have "scrape_all_books parser resolve net config =
           Some (Inr [], if first = [] then [SessionCreated]
                         else snd (fetch_with_retries net first config [SessionCreated]))"
  proof (cases "first = []")
    case True
    with assms(1) show ?thesis
      by (simp add: scrape_all_books_def scrape_loop_empty_url)
  next
    case False
    with assms(2) have "page_stops parser resolve net config first [SessionCreated]" by simp
    from scrape_loop_page_stops [OF False this] assms(1) False show ?thesis
      by (simp add: scrape_all_books_def)
  qed
  then show ?thesis by (simp add: clean_and_validate_def)
qed

theorem empty_crawl_rejected_witness:
  "urljoin example_resolve (base_url site_config) ''catalogue/page-1.html'' = Inr page1_url \<and>
   page_stops example_parser example_resolve net_down site_config page1_url [SessionCreated] \<and>
   scrape_all_books example_parser example_resolve net_down site_config =
     Some (Inr [], [SessionCreated, site_get page1_url, site_sleep, site_get page1_url,
                    site_sleep]) \<and>
   clean_and_validate no_number [] = Inl ValueError"
proof -
  have st: "page_stops example_parser example_resolve net_down site_config page1_url
              [SessionCreated]"
    by (simp add: page_stops_def ex_fetch_down)
  then have d: "page1_url = [] \<or>
      page_stops example_parser example_resolve net_down site_config page1_url [SessionCreated]"
    by simp
  from empty_crawl_rejected [OF ex_first_url d, of no_number] st ex_first_url
  show ?thesis by (simp add: ex_fetch_down)
qed

text \<open>
  C9 (as amended). The driver never closes the session it creates: whenever
  \<open>scrape_all_books\<close> returns, by whichever exit (no next link, a failed fetch, a
  page without records, or an exception of the extractor or of \<open>urljoin\<close>), the
  session has been created and has not been closed.
\<close>

theorem scrape_all_books_session_left_open:
  assumes "scrape_all_books parser resolve net config = Some (result, tr')"
  shows "session_open tr'"
proof -
  have o: "session_open [SessionCreated]" by (simp add: session_open_def)
  show ?thesis
  proof (cases "urljoin resolve (base_url config) ''catalogue/page-1.html''")
    case (Inl e)
    with assms o show ?thesis by (simp add: scrape_all_books_def)
  next
    case (Inr first)
    with assms have "scrape_loop parser resolve net config (Some first) [] 0 [SessionCreated] =
        Some (result, tr')"
      by (simp add: scrape_all_books_def)
    from scrape_loop_session_open [OF this] o show ?thesis by simp
  qed
qed

theorem scrape_all_books_session_left_open_witness:
  "scrape_all_books example_parser example_resolve net_site site_config =
     Some (Inr [set_page_num 1 row_full, set_page_num 1 row_bare, set_page_num 2 row_bare,
                set_page_num 3 row_full],
           [SessionCreated, site_get page1_url, site_sleep, site_get page2_url,
            site_sleep, site_get page3_url, site_sleep]) \<and>
   session_open [SessionCreated, site_get page1_url, site_sleep, site_get page2_url,
                 site_sleep, site_get page3_url, site_sleep]"
  using scrape_all_books_session_left_open [OF ex_run_site] ex_run_site
  by simp

theorem scrape_all_books_session_left_open_counterexample:
  "scrape_all_books example_parser example_resolve net_site site_config =
     Some (Inr [set_page_num 1 row_full, set_page_num 1 row_bare, set_page_num 2 row_bare,
                set_page_num 3 row_full],
           [SessionCreated, site_get page1_url, site_sleep, site_get page2_url,
            site_sleep, site_get page3_url, site_sleep]) \<and>
   SessionClosed \<notin> set [SessionCreated, site_get page1_url, site_sleep, site_get page2_url,
                        site_sleep, site_get page3_url, site_sleep] \<and>
   scrape_all_books example_parser example_resolve net_site_404 site_config =
     Some (Inr [set_page_num 1 row_full, set_page_num 1 row_bare],
           [SessionCreated, site_get page1_url, site_sleep, site_get page2_url]) \<and>
   scrape_all_books example_parser example_resolve net_site_empty site_config =
     Some (Inr [set_page_num 1 row_full, set_page_num 1 row_bare],
           [SessionCreated, site_get page1_url, site_sleep, site_get page2_url]) \<and>
   SessionClosed \<notin> set [SessionCreated, site_get page1_url, site_sleep, site_get page2_url]"
  using ex_run_site ex_run_site_404 ex_run_site_empty
  by (simp add: site_get_def site_sleep_def)

section \<open>Properties of the cleaning stage\<close>

lemma drop_dups_keys:
  "column ` set (drop_dups column seen rs) \<subseteq> column ` set rs - set seen"
proof (induction rs arbitrary: seen)
  case Nil
  then show ?case by simp
next
  case (Cons r rs)
  show ?case
  proof (cases "column r \<in> set seen")
    case True
    with Cons.IH [of seen] show ?thesis by auto
  next
    case False
    with Cons.IH [of "column r # seen"] show ?thesis by auto
  qed
qed

lemma drop_dups_distinct: "distinct (map column (drop_dups column seen rs))"
proof (induction rs arbitrary: seen)
  case Nil
  then show ?case by simp
next
  case (Cons r rs)
  show ?case
  proof (cases "column r \<in> set seen")
    case True
    with Cons.IH [of seen] show ?thesis by simp
  next
    case False
    have "column r \<notin> column ` set (drop_dups column (column r # seen) rs)"
      using drop_dups_keys [of column "column r # seen" rs] by auto
    with False Cons.IH [of "column r # seen"] show ?thesis by simp
  qed
qed

lemma drop_dups_id:
  "distinct (map column rs) \<Longrightarrow> column ` set rs \<inter> set seen = {} \<Longrightarrow>
   drop_dups column seen rs = rs"
proof (induction rs arbitrary: seen)
  case Nil
  then show ?case by simp
next
  case (Cons r rs)
  from Cons.prems have fresh: "column r \<notin> set seen" by auto
  from Cons.prems have "distinct (map column rs)"
    and "column ` set rs \<inter> set (column r # seen) = {}" by auto
  from Cons.IH [OF this] fresh show ?case by simp
qed

lemma drop_dups_idem:
  "drop_dups column seen (drop_dups column seen rs) = drop_dups column seen rs"
proof (rule drop_dups_id)
  show "distinct (map column (drop_dups column seen rs))" by (rule drop_dups_distinct)
  show "column ` set (drop_dups column seen rs) \<inter> set seen = {}"
    using drop_dups_keys [of column seen rs] by auto
qed

lemma product_url_add_price_gbp [simp]:
  "product_url (add_price_gbp to_numeric r) = product_url r"
  by (simp add: add_price_gbp_def tagged_row.defs row.defs)

text \<open>
  C7. Deduplication by product URL is idempotent: deduplicating a deduplicated frame
  changes nothing; a frame without duplicate product URLs is left as it is; and so
  is, in particular, whatever \<open>clean_and_validate\<close> returns.
\<close>

theorem drop_duplicates_idempotent:
  "drop_duplicates product_url (drop_duplicates product_url df) = drop_duplicates product_url df \<and>
   (distinct (map product_url df) \<longrightarrow> drop_duplicates product_url df = df) \<and>
   (\<forall>out. clean_and_validate to_numeric raw = Inr out \<longrightarrow>
          drop_duplicates product_url out = out)"
  by (auto simp add: drop_duplicates_def drop_dups_idem drop_dups_id clean_and_validate_def
      split: if_splits)

lemma ex_urls [simp]:
  "product_url row_full = ''http://b/catalogue/a/index.html''"
  "product_url row_bare = ''http://b/catalogue/b/index.html''"
  by (simp_all add: row_full_def row_bare_def)

theorem drop_duplicates_idempotent_witness:
  "drop_duplicates product_url
     [set_page_num 1 row_full, set_page_num 1 row_bare, set_page_num 2 row_bare,
      set_page_num 3 row_full] = [set_page_num 1 row_full, set_page_num 1 row_bare] \<and>
   drop_duplicates product_url
     (drop_duplicates product_url
        [set_page_num 1 row_full, set_page_num 1 row_bare, set_page_num 2 row_bare,
         set_page_num 3 row_full]) = [set_page_num 1 row_full, set_page_num 1 row_bare] \<and>
   distinct (map product_url [set_page_num 1 row_full, set_page_num 1 row_bare]) \<and>
   drop_duplicates product_url [set_page_num 1 row_full, set_page_num 1 row_bare] =
     [set_page_num 1 row_full, set_page_num 1 row_bare] \<and>
   clean_and_validate no_number
     [set_page_num 1 row_full, set_page_num 1 row_bare, set_page_num 2 row_bare,
      set_page_num 3 row_full] =
     Inr [add_price_gbp no_number (set_page_num 1 row_full),
          add_price_gbp no_number (set_page_num 1 row_bare)] \<and>
   drop_duplicates product_url
     [add_price_gbp no_number (set_page_num 1 row_full),
      add_price_gbp no_number (set_page_num 1 row_bare)] =
     [add_price_gbp no_number (set_page_num 1 row_full),
      add_price_gbp no_number (set_page_num 1 row_bare)]"
proof -
  let ?df = "[set_page_num 1 row_full, set_page_num 1 row_bare, set_page_num 2 row_bare,
              set_page_num 3 row_full]"
  let ?dd = "[set_page_num 1 row_full, set_page_num 1 row_bare]"
  have once: "drop_duplicates product_url ?df = ?dd"
    by (simp add: drop_duplicates_def)
  have d: "distinct (map product_url ?dd)"
    by simp
  have c: "clean_and_validate no_number ?df =
     Inr [add_price_gbp no_number (set_page_num 1 row_full),
          add_price_gbp no_number (set_page_num 1 row_bare)]"
    by (simp add: clean_and_validate_def drop_duplicates_def)
  from drop_duplicates_idempotent [of ?df no_number ?df]
    drop_duplicates_idempotent [of ?dd no_number ?df] once d c
  show ?thesis by simp
qed

end
